theory Spec2Isabelle
  imports Main
begin

section \<open>JavaScript values\<close>

text \<open>
  The values that flow through the handlers: JSON-like data, \<open>undefined\<close> and \<open>NaN\<close>.
  Numbers are modelled as integers. A string is a list of code units; the statements and
  messages of this program only use code units below 256. An object is an association
  list from property names to values, in insertion order.
\<close>

datatype jsval =
    JUndefined
  | JNull
  | JNaN
  | JBool bool
  | JNum int
  | JStr string
  | JObj "(string \<times> jsval) list"
  | JArr "jsval list"

type_synonym obj = "(string \<times> jsval) list"

text \<open>What a \<open>throw\<close> carries: the engine's TypeError, or an \<open>Error\<close> with its message.\<close>

datatype error = TypeError | Error string

text \<open>Decimal rendering of a number inside a template literal.\<close>

fun decimal :: "nat \<Rightarrow> string" where
  "decimal n = (if n < 10 then [''0123456789'' ! n]
                else decimal (n div 10) @ [''0123456789'' ! (n mod 10)])"

declare decimal.simps [simp del]

definition show_int :: "int \<Rightarrow> string" where
  "show_int i = (if i < 0 then CHR ''-'' # decimal (nat (- i)) else decimal (nat i))"

section \<open>Placeholder translation (db/connection.js)\<close>

text \<open>
  \<^verbatim>\<open>let index = 0; return sql.replace(/\?/g, () => `$${++index}`);\<close>
  The scan goes left to right; \<open>index\<close> is the counter before the next match.
\<close>

fun replaceMarks :: "nat \<Rightarrow> string \<Rightarrow> string" where
  "replaceMarks index [] = []"
| "replaceMarks index (c # cs) =
     (if c = CHR ''?''
      then CHR ''$'' # decimal (Suc index) @ replaceMarks (Suc index) cs
      else c # replaceMarks index cs)"

definition convertQuestionMarksToDollarSigns :: "string \<Rightarrow> string" where
  "convertQuestionMarksToDollarSigns sql = replaceMarks 0 sql"

section \<open>The fragment of JavaScript the handlers use\<close>

text \<open>
  Each operator is total here and returns what the engine returns on these values;
  a property read on \<open>undefined\<close> or \<open>null\<close> throws TypeError. Inherited
  (prototype) properties are not modelled: reading one gives \<open>undefined\<close>.
\<close>

definition truthy :: "jsval \<Rightarrow> bool" where
  "truthy v = (case v of
       JUndefined \<Rightarrow> False | JNull \<Rightarrow> False | JNaN \<Rightarrow> False
     | JBool b \<Rightarrow> b | JNum n \<Rightarrow> (if n = 0 then False else True)
     | JStr s \<Rightarrow> (if s = [] then False else True)
     | JObj _ \<Rightarrow> True | JArr _ \<Rightarrow> True)"

definition nullish :: "jsval \<Rightarrow> bool" where
  "nullish v = (case v of JUndefined \<Rightarrow> True | JNull \<Rightarrow> True | _ \<Rightarrow> False)"

fun position :: "'a list \<Rightarrow> 'a \<Rightarrow> nat option" where
  "position [] a = None"
| "position (x # xs) a = (if x = a then Some 0 else map_option Suc (position xs a))"

fun digits_val :: "nat \<Rightarrow> string \<Rightarrow> nat option" where
  "digits_val acc [] = Some acc"
| "digits_val acc (c # cs) =
     (case position ''0123456789'' c of
        None \<Rightarrow> None
      | Some d \<Rightarrow> digits_val (10 * acc + d) cs)"

text \<open>A property name that is a canonical array index: decimal digits without a leading zero.\<close>

definition array_index :: "string \<Rightarrow> nat option" where
  "array_index k =
     (if k = [] then None
      else if k = ''0'' then Some 0
      else if hd k = CHR ''0'' then None
      else digits_val 0 k)"

definition obj_get :: "obj \<Rightarrow> string \<Rightarrow> jsval" where
  "obj_get kvs k = (case map_of kvs k of None \<Rightarrow> JUndefined | Some v \<Rightarrow> v)"

text \<open>\<^verbatim>\<open>o[k] = v\<close>: an existing property keeps its place, a new one is added last.\<close>

fun obj_set :: "obj \<Rightarrow> string \<Rightarrow> jsval \<Rightarrow> obj" where
  "obj_set [] k v = [(k, v)]"
| "obj_set (p # ps) k v = (if fst p = k then (k, v) # ps else p # obj_set ps k v)"

text \<open>\<^verbatim>\<open>v[k]\<close> and \<^verbatim>\<open>v.k\<close>.\<close>

definition get_prop :: "jsval \<Rightarrow> string \<Rightarrow> error + jsval" where
  "get_prop v k = (case v of
       JUndefined \<Rightarrow> Inl TypeError
     | JNull \<Rightarrow> Inl TypeError
     | JObj kvs \<Rightarrow> Inr (obj_get kvs k)
     | JArr xs \<Rightarrow> Inr (if k = ''length'' then JNum (int (length xs))
                        else case array_index k of
                               None \<Rightarrow> JUndefined
                             | Some i \<Rightarrow> if i < length xs then xs ! i else JUndefined)
     | JStr s \<Rightarrow> Inr (if k = ''length'' then JNum (int (length s))
                       else case array_index k of
                              None \<Rightarrow> JUndefined
                            | Some i \<Rightarrow> if i < length s then JStr [s ! i] else JUndefined)
     | _ \<Rightarrow> Inr JUndefined)"

text \<open>\<^verbatim>\<open>const [x] = v\<close>: only arrays and strings are iterable among these values.\<close>

definition destructure_first :: "jsval \<Rightarrow> error + jsval" where
  "destructure_first v = (case v of
       JArr xs \<Rightarrow> Inr (case xs of [] \<Rightarrow> JUndefined | x # _ \<Rightarrow> x)
     | JStr s \<Rightarrow> Inr (case s of [] \<Rightarrow> JUndefined | c # _ \<Rightarrow> JStr [c])
     | _ \<Rightarrow> Inl TypeError)"

text \<open>The own enumerable properties that \<^verbatim>\<open>{...v}\<close> copies.\<close>

definition own_props :: "jsval \<Rightarrow> obj" where
  "own_props v = (case v of
       JObj kvs \<Rightarrow> kvs
     | JArr xs \<Rightarrow> zip (map decimal [0..<length xs]) xs
     | JStr s \<Rightarrow> zip (map decimal [0..<length s]) (map (\<lambda>c. JStr [c]) s)
     | _ \<Rightarrow> [])"

text \<open>\<^verbatim>\<open>{...a, ...b}\<close>: the properties of \<open>a\<close>, then those of \<open>b\<close> assigned over them.\<close>

definition spread :: "obj \<Rightarrow> obj \<Rightarrow> obj" where
  "spread a b = fold (\<lambda>(k, v) acc. obj_set acc k v) (a @ b) []"

fun join :: "string \<Rightarrow> string list \<Rightarrow> string" where
  "join sep [] = []"
| "join sep [s] = s"
| "join sep (s # t # ts) = s @ sep @ join sep (t # ts)"

text \<open>String conversion, as a template literal does it.\<close>

fun to_str :: "jsval \<Rightarrow> string" where
  "to_str JUndefined = ''undefined''"
| "to_str JNull = ''null''"
| "to_str JNaN = ''NaN''"
| "to_str (JBool b) = (if b then ''true'' else ''false'')"
| "to_str (JNum n) = show_int n"
| "to_str (JStr s) = s"
| "to_str (JObj kvs) = ''[object Object]''"
| "to_str (JArr xs) = join '','' (map (\<lambda>x. if nullish x then [] else to_str x) xs)"

definition trim :: "string \<Rightarrow> string" where
  "trim s = rev (dropWhile (\<lambda>c. c = CHR '' '') (rev (dropWhile (\<lambda>c. c = CHR '' '') s)))"

text \<open>
  Number conversion of a string: blank is 0, an optionally signed run of decimal digits is
  its value, anything else is \<open>NaN\<close> (the numbers of this model are the integers).
\<close>

definition str_num :: "string \<Rightarrow> jsval" where
  "str_num s = (case trim s of
       [] \<Rightarrow> JNum 0
     | c # cs \<Rightarrow>
         if c = CHR ''-'' then (if cs = [] then JNaN
                                 else case digits_val 0 cs of None \<Rightarrow> JNaN | Some n \<Rightarrow> JNum (- int n))
         else if c = CHR ''+'' then (if cs = [] then JNaN
                                     else case digits_val 0 cs of None \<Rightarrow> JNaN | Some n \<Rightarrow> JNum (int n))
         else (case digits_val 0 (c # cs) of None \<Rightarrow> JNaN | Some n \<Rightarrow> JNum (int n)))"

definition to_number :: "jsval \<Rightarrow> jsval" where
  "to_number v = (case v of
       JUndefined \<Rightarrow> JNaN | JNull \<Rightarrow> JNum 0 | JNaN \<Rightarrow> JNaN
     | JBool b \<Rightarrow> JNum (if b then 1 else 0) | JNum n \<Rightarrow> JNum n
     | JStr s \<Rightarrow> str_num s
     | JObj kvs \<Rightarrow> JNaN
     | JArr xs \<Rightarrow> str_num (to_str (JArr xs)))"

text \<open>\<^verbatim>\<open>v > 0\<close>\<close>

definition gt_zero :: "jsval \<Rightarrow> bool" where
  "gt_zero v = (case to_number v of JNum n \<Rightarrow> 0 < n | _ \<Rightarrow> False)"

text \<open>\<^verbatim>\<open>v === 0\<close>\<close>

definition is_zero :: "jsval \<Rightarrow> bool" where
  "is_zero v = (case v of JNum n \<Rightarrow> n = 0 | _ \<Rightarrow> False)"

text \<open>
  \<^verbatim>\<open>new Date((v - (25567 + 2)) * 86400 * 1000)\<close>. A Date is represented by its time
  value in milliseconds, \<open>NaN\<close> for an invalid date (also beyond the range of time values).
\<close>

definition serial_date :: "jsval \<Rightarrow> jsval" where
  "serial_date v = (case to_number v of
       JNum n \<Rightarrow> (let ms = (n - (25567 + 2)) * 86400 * 1000
                   in if abs ms \<le> 8640000000000000 then JNum ms else JNaN)
     | _ \<Rightarrow> JNaN)"

section \<open>The connection adapter (db/connection.js)\<close>

text \<open>
  The drivers and the database are outside the repository. A run is taken against a script
  of driver replies, one for each statement sent, in order: the raw value the driver's
  \<open>query\<close> resolves to, or the error it rejects with. Past the end of the script every
  statement is rejected, as on a lost connection. What holds for every script holds
  for every behaviour of the database. The state also records the statements sent and how
  often a pooled connection was acquired and released.
\<close>

type_synonym stmt = "string \<times> jsval"
type_synonym reply = "error + jsval"

record st =
  pending :: "reply list"
  sent :: "stmt list"
  acquired :: nat
  released :: nat

text \<open>
  The process environment: \<open>process.env.DB_TYPE\<close>, the outcome of taking a connection
  from the pool, and the MySQL driver's own \<open>connection.format\<close>.
\<close>

record env =
  dbType :: "string option"
  pool_error :: "error option"
  lib_format :: "string \<Rightarrow> jsval \<Rightarrow> error + string"

type_synonym 'a io = "st \<Rightarrow> (error + 'a) \<times> st"

definition ret :: "'a \<Rightarrow> 'a io" where
  "ret x s = (Inr x, s)"

definition lift :: "error + 'a \<Rightarrow> 'a io" where
  "lift r s = (r, s)"

definition andThen :: "'a io \<Rightarrow> ('a \<Rightarrow> 'b io) \<Rightarrow> 'b io" where
  "andThen m f s = (case m s of (Inl e, s') \<Rightarrow> (Inl e, s') | (Inr x, s') \<Rightarrow> f x s')"

text \<open>\<^verbatim>\<open>client.query(sql, params)\<close> of the driver: the next scripted reply.\<close>

definition client_query :: "string \<Rightarrow> jsval \<Rightarrow> jsval io" where
  "client_query sql params s =
     (case pending s of
        [] \<Rightarrow> (Inl (Error ''connection lost''), s\<lparr>sent := sent s @ [(sql, params)]\<rparr>)
      | r # rs \<Rightarrow> (r, s\<lparr>pending := rs, sent := sent s @ [(sql, params)]\<rparr>))"

text \<open>\<^verbatim>\<open>result.rows ? result.rows : result[0]\<close>\<close>

definition unwrap_result :: "jsval \<Rightarrow> error + jsval" where
  "unwrap_result result =
     (case get_prop result ''rows'' of
        Inl e \<Rightarrow> Inl e
      | Inr rows \<Rightarrow> if truthy rows then Inr rows else get_prop result ''0'')"

text \<open>\<^verbatim>\<open>if (dbType === 'postgres') { sql = convertQuestionMarksToDollarSigns(sql); }\<close>\<close>

definition translate :: "env \<Rightarrow> string \<Rightarrow> string" where
  "translate ev sql =
     (if dbType ev = Some ''postgres'' then convertQuestionMarksToDollarSigns sql else sql)"

definition queryWrapper :: "env \<Rightarrow> string \<Rightarrow> jsval \<Rightarrow> jsval io" where
  "queryWrapper ev sql params =
     andThen (client_query (translate ev sql) params) (\<lambda>result. lift (unwrap_result result))"

text \<open>
  The PostgreSQL \<open>format\<close>:
  \<^verbatim>\<open>sql.replace(/\?/g, (_, i) => `$${params[i - 1]}`)\<close>.
  The second argument of a replacer without capture groups is the offset of the match.
\<close>

fun pg_replace :: "jsval \<Rightarrow> int \<Rightarrow> string \<Rightarrow> error + string" where
  "pg_replace params i [] = Inr []"
| "pg_replace params i (c # cs) =
     (if c = CHR ''?''
      then (case get_prop params (show_int (i - 1)) of
              Inl e \<Rightarrow> Inl e
            | Inr v \<Rightarrow> (case pg_replace params (i + 1) cs of
                          Inl e \<Rightarrow> Inl e
                        | Inr out \<Rightarrow> Inr (CHR ''$'' # to_str v @ out)))
      else (case pg_replace params (i + 1) cs of
              Inl e \<Rightarrow> Inl e
            | Inr out \<Rightarrow> Inr (c # out)))"

definition pg_format :: "string \<Rightarrow> jsval \<Rightarrow> error + string" where
  "pg_format sql params = pg_replace params 0 sql"

datatype conn = MysqlConn | PgConn

definition getConnection :: "env \<Rightarrow> conn io" where
  "getConnection ev s =
     (if dbType ev = Some ''mysql''
      then (case pool_error ev of
              Some e \<Rightarrow> (Inl e, s)
            | None \<Rightarrow> (Inr MysqlConn, s\<lparr>acquired := acquired s + 1\<rparr>))
      else if dbType ev = Some ''postgres''
      then (case pool_error ev of
              Some e \<Rightarrow> (Inl e, s)
            | None \<Rightarrow> (Inr PgConn, s\<lparr>acquired := acquired s + 1\<rparr>))
      else (Inl (Error ''Tipo de base de datos no soportada''), s))"

definition conn_query :: "env \<Rightarrow> conn \<Rightarrow> string \<Rightarrow> jsval \<Rightarrow> jsval io" where
  "conn_query ev c sql params = queryWrapper ev sql params"

definition conn_release :: "conn \<Rightarrow> st \<Rightarrow> st" where
  "conn_release c s = s\<lparr>released := released s + 1\<rparr>"

definition conn_format :: "env \<Rightarrow> conn \<Rightarrow> string \<Rightarrow> jsval \<Rightarrow> error + string" where
  "conn_format ev c sql params =
     (case c of MysqlConn \<Rightarrow> lib_format ev sql params | PgConn \<Rightarrow> pg_format sql params)"

section \<open>Get-or-create (db/connection.js)\<close>

text \<open>\<^verbatim>\<open>`SELECT * FROM ${table} WHERE ${uniqueField} = ?`\<close>\<close>

definition select_by :: "string \<Rightarrow> string \<Rightarrow> string" where
  "select_by table uniqueField = ''SELECT * FROM '' @ table @ '' WHERE '' @ uniqueField @ '' = ?''"

text \<open>\<^verbatim>\<open>result.insertId || result[0]?.id\<close>\<close>

definition assigned_id :: "jsval \<Rightarrow> error + jsval" where
  "assigned_id result =
     (case get_prop result ''insertId'' of
        Inl e \<Rightarrow> Inl e
      | Inr i \<Rightarrow> if truthy i then Inr i
                 else (case get_prop result ''0'' of
                         Inl e \<Rightarrow> Inl e
                       | Inr r \<Rightarrow> if nullish r then Inr JUndefined else get_prop r ''id''))"

text \<open>The first select: the first row found, or nothing.\<close>

definition getOrCreate_find :: "env \<Rightarrow> conn \<Rightarrow> string \<Rightarrow> obj \<Rightarrow> string \<Rightarrow> jsval option io" where
  "getOrCreate_find ev c table data uniqueField =
     andThen (lift (conn_format ev c (select_by table uniqueField) (JArr [obj_get data uniqueField])))
       (\<lambda>selectQuery.
     andThen (conn_query ev c selectQuery JUndefined) (\<lambda>rows.
     andThen (lift (get_prop rows ''length'')) (\<lambda>len.
       if gt_zero len then andThen (lift (get_prop rows ''0'')) (\<lambda>row. ret (Some row))
       else ret None)))"

text \<open>The insert and \<^verbatim>\<open>data.id = ...\<close>: the result is the record as the assignment leaves it.\<close>

definition getOrCreate_insert :: "env \<Rightarrow> conn \<Rightarrow> string \<Rightarrow> obj \<Rightarrow> obj io" where
  "getOrCreate_insert ev c table data =
     andThen (lift (conn_format ev c (''INSERT INTO '' @ table @ '' SET ?'') (JObj data)))
       (\<lambda>insertQuery.
     andThen (conn_query ev c insertQuery JUndefined) (\<lambda>result.
     andThen (lift (assigned_id result)) (\<lambda>newId.
       ret (obj_set data ''id'' newId))))"

text \<open>The second select, on the record that now carries \<open>id\<close>.\<close>

definition getOrCreate_reselect :: "env \<Rightarrow> conn \<Rightarrow> string \<Rightarrow> obj \<Rightarrow> string \<Rightarrow> jsval io" where
  "getOrCreate_reselect ev c table data uniqueField =
     andThen (lift (conn_format ev c (select_by table uniqueField) (JArr [obj_get data uniqueField])))
       (\<lambda>selectQuery2.
     andThen (conn_query ev c selectQuery2 JUndefined) (\<lambda>rows2.
     andThen (lift (get_prop rows2 ''length'')) (\<lambda>len.
       if gt_zero len
       then andThen (lift (get_prop rows2 ''0'')) (\<lambda>row. ret (JObj (spread data (own_props row))))
       else ret (JObj data))))"

text \<open>
  The whole function. It returns, or throws, and leaves the caller's record object as its
  second component: the \<open>catch\<close> only logs and throws the error again.
\<close>

definition getOrCreate ::
    "env \<Rightarrow> conn \<Rightarrow> string \<Rightarrow> obj \<Rightarrow> string \<Rightarrow> st \<Rightarrow> ((error + jsval) \<times> obj) \<times> st" where
  "getOrCreate ev c table data uniqueField s =
     (case getOrCreate_find ev c table data uniqueField s of
        (Inl e, s1) \<Rightarrow> ((Inl e, data), s1)
      | (Inr (Some row), s1) \<Rightarrow> ((Inr row, data), s1)
      | (Inr None, s1) \<Rightarrow>
          (case getOrCreate_insert ev c table data s1 of
             (Inl e, s2) \<Rightarrow> ((Inl e, data), s2)
           | (Inr data', s2) \<Rightarrow>
               (case getOrCreate_reselect ev c table data' uniqueField s2 of
                  (r, s3) \<Rightarrow> ((r, data'), s3))))"

section \<open>The resource routes (routes/*.js)\<close>

text \<open>
  What a handler leaves behind: the response it sent (status and JSON body), or the error
  its promise rejects with when it throws before it has responded.
\<close>

datatype outcome = Responded nat jsval | Rejected error

text \<open>
  Every resource handler has the shape
  \<^verbatim>\<open>const connection = await getConnection(); try { ... } catch (err) { res.status(500).json({ error: msg }) } finally { connection.release() }\<close>.
  The body yields the status and body it responds with, or throws.
\<close>

definition guarded :: "env \<Rightarrow> string \<Rightarrow> (conn \<Rightarrow> (nat \<times> jsval) io) \<Rightarrow> st \<Rightarrow> outcome \<times> st" where
  "guarded ev msg body s =
     (case getConnection ev s of
        (Inl e, s0) \<Rightarrow> (Rejected e, s0)
      | (Inr c, s0) \<Rightarrow>
          (case body c s0 of
             (Inr (code, b), s1) \<Rightarrow> (Responded code b, conn_release c s1)
           | (Inl err, s1) \<Rightarrow> (Responded 500 (JObj [(''error'', JStr msg)]), conn_release c s1)))"

text \<open>\<^verbatim>\<open>const { f1, f2, ... } = req.body\<close>\<close>

fun get_fields :: "jsval \<Rightarrow> string list \<Rightarrow> error + jsval list" where
  "get_fields body [] = (if nullish body then Inl TypeError else Inr [])"
| "get_fields body (f # fs) =
     (case get_prop body f of
        Inl e \<Rightarrow> Inl e
      | Inr v \<Rightarrow> (case get_fields body fs of Inl e \<Rightarrow> Inl e | Inr vs \<Rightarrow> Inr (v # vs)))"

text \<open>
  How a POST handler builds its 201 body: the identifier under a key followed by the fields,
  the identifier followed by the whole request body, or the fields alone.
\<close>

datatype echo = EchoId string | EchoIdBody | EchoPlain

text \<open>The six route files differ in their statements, field lists and messages only.\<close>

record resource =
  sql_all :: string
  sql_one :: string
  sql_insert :: string
  sql_update :: string
  sql_delete :: string
  post_fields :: "string list"
  put_fields :: "string list"
  post_echo :: echo
  err_all :: string
  msg_404 :: string
  err_one :: string
  err_post :: string
  msg_put :: string
  err_put :: string
  msg_delete :: string
  err_delete :: string

definition practica :: resource where
  "practica = \<lparr>
     sql_all = ''SELECT * FROM practica'',
     sql_one = ''SELECT * FROM practica WHERE id = ?'',
     sql_insert = ''INSERT INTO practica (clasificaciones, no_folio, fecha_entrega_facultad, numero_practica_inscribe, fecha_inscripcion_materia, nrc, programa, documento_estudiante, id_empresa, id_contacto, id_jefe) VALUES (?, ?, ?, ?, ?, ?, ?, ?, ?, ?, ?)'',
     sql_update = ''UPDATE practica SET clasificaciones = ?, no_folio = ?, fecha_entrega_facultad = ?, numero_practica_inscribe = ?, fecha_inscripcion_materia = ?, nrc = ?, programa = ?, documento_estudiante = ?, id_empresa = ?, id_contacto = ?, id_jefe = ? WHERE id = ?'',
     sql_delete = ''DELETE FROM practica WHERE id = ?'',
     post_fields = [''clasificaciones'', ''no_folio'', ''fecha_entrega_facultad'', ''numero_practica_inscribe'', ''fecha_inscripcion_materia'', ''nrc'', ''programa'', ''documento_estudiante'', ''id_empresa'', ''id_contacto'', ''id_jefe''],
     put_fields = [''clasificaciones'', ''no_folio'', ''fecha_entrega_facultad'', ''numero_practica_inscribe'', ''fecha_inscripcion_materia'', ''nrc'', ''programa'', ''documento_estudiante'', ''id_empresa'', ''id_contacto'', ''id_jefe''],
     post_echo = EchoId ''id'',
     err_all = ''Error al obtener las pr'' @ [CHR 0xE1] @ ''cticas.'',
     msg_404 = ''Pr'' @ [CHR 0xE1] @ ''ctica no encontrada.'',
     err_one = ''Error al obtener la pr'' @ [CHR 0xE1] @ ''ctica.'',
     err_post = ''Error al crear la pr'' @ [CHR 0xE1] @ ''ctica.'',
     msg_put = ''Pr'' @ [CHR 0xE1] @ ''ctica actualizada correctamente.'',
     err_put = ''Error al actualizar la pr'' @ [CHR 0xE1] @ ''ctica.'',
     msg_delete = ''Pr'' @ [CHR 0xE1] @ ''ctica eliminada correctamente.'',
     err_delete = ''Error al eliminar la pr'' @ [CHR 0xE1] @ ''ctica.''\<rparr>"

definition empresa :: resource where
  "empresa = \<lparr>
     sql_all = ''SELECT * FROM empresa'',
     sql_one = ''SELECT * FROM empresa WHERE id = ?'',
     sql_insert = ''INSERT INTO empresa (fecha_inicio, fecha_terminacion, total_dias_practica, nit, nombre_empresa) VALUES (?, ?, ?, ?, ?)'',
     sql_update = ''UPDATE empresa SET fecha_inicio = ?, fecha_terminacion = ?, total_dias_practica = ?, nit = ?, nombre_empresa = ? WHERE id = ?'',
     sql_delete = ''DELETE FROM empresa WHERE id = ?'',
     post_fields = [''fecha_inicio'', ''fecha_terminacion'', ''total_dias_practica'', ''nit'', ''nombre_empresa''],
     put_fields = [''fecha_inicio'', ''fecha_terminacion'', ''total_dias_practica'', ''nit'', ''nombre_empresa''],
     post_echo = EchoId ''id'',
     err_all = ''Error al obtener las empresas.'',
     msg_404 = ''Empresa no encontrada.'',
     err_one = ''Error al obtener la empresa.'',
     err_post = ''Error al crear la empresa.'',
     msg_put = ''Empresa actualizada correctamente.'',
     err_put = ''Error al actualizar la empresa.'',
     msg_delete = ''Empresa eliminada correctamente.'',
     err_delete = ''Error al eliminar la empresa.''\<rparr>"

definition contacto :: resource where
  "contacto = \<lparr>
     sql_all = ''SELECT * FROM contacto'',
     sql_one = ''SELECT * FROM contacto WHERE id = ?'',
     sql_insert = ''INSERT INTO contacto (nombre_contacto, cargo_contacto, telefono_contacto, celular_contacto, email_contacto, direccion_contacto) VALUES (?, ?, ?, ?, ?, ?)'',
     sql_update = ''UPDATE contacto SET nombre_contacto = ?, cargo_contacto = ?, telefono_contacto = ?, celular_contacto = ?, email_contacto = ?, direccion_contacto = ? WHERE id = ?'',
     sql_delete = ''DELETE FROM contacto WHERE id = ?'',
     post_fields = [''nombre_contacto'', ''cargo_contacto'', ''telefono_contacto'', ''celular_contacto'', ''email_contacto'', ''direccion_contacto''],
     put_fields = [''nombre_contacto'', ''cargo_contacto'', ''telefono_contacto'', ''celular_contacto'', ''email_contacto'', ''direccion_contacto''],
     post_echo = EchoIdBody,
     err_all = ''Error al obtener los contactos.'',
     msg_404 = ''Contacto no encontrado.'',
     err_one = ''Error al obtener el contacto.'',
     err_post = ''Error al crear el contacto.'',
     msg_put = ''Contacto actualizado correctamente.'',
     err_put = ''Error al actualizar el contacto.'',
     msg_delete = ''Contacto eliminado correctamente.'',
     err_delete = ''Error al eliminar el contacto.''\<rparr>"

definition estudiante :: resource where
  "estudiante = \<lparr>
     sql_all = ''SELECT * FROM estudiante'',
     sql_one = ''SELECT * FROM estudiante WHERE documento = ?'',
     sql_insert = ''INSERT INTO estudiante (documento, nombre, edad, direccion_residencia, telefono_residencia, celular) VALUES (?, ?, ?, ?, ?, ?)'',
     sql_update = ''UPDATE estudiante SET nombre = ?, edad = ?, direccion_residencia = ?, telefono_residencia = ?, celular = ? WHERE documento = ?'',
     sql_delete = ''DELETE FROM estudiante WHERE documento = ?'',
     post_fields = [''documento'', ''nombre'', ''edad'', ''direccion_residencia'', ''telefono_residencia'', ''celular''],
     put_fields = [''nombre'', ''edad'', ''direccion_residencia'', ''telefono_residencia'', ''celular''],
     post_echo = EchoPlain,
     err_all = ''Error al obtener los estudiantes.'',
     msg_404 = ''Estudiante no encontrado.'',
     err_one = ''Error al obtener el estudiante.'',
     err_post = ''Error al crear el estudiante.'',
     msg_put = ''Estudiante actualizado correctamente.'',
     err_put = ''Error al actualizar el estudiante.'',
     msg_delete = ''Estudiante eliminado correctamente.'',
     err_delete = ''Error al eliminar el estudiante.''\<rparr>"

definition jefe :: resource where
  "jefe = \<lparr>
     sql_all = ''SELECT * FROM jefe'',
     sql_one = ''SELECT * FROM jefe WHERE id = ?'',
     sql_insert = ''INSERT INTO jefe (nombre_jefe, telefono_jefe, correo_jefe, cargo_jefe) VALUES (?, ?, ?, ?)'',
     sql_update = ''UPDATE jefe SET nombre_jefe = ?, telefono_jefe = ?, correo_jefe = ?, cargo_jefe = ? WHERE id = ?'',
     sql_delete = ''DELETE FROM jefe WHERE id = ?'',
     post_fields = [''nombre_jefe'', ''telefono_jefe'', ''correo_jefe'', ''cargo_jefe''],
     put_fields = [''nombre_jefe'', ''telefono_jefe'', ''correo_jefe'', ''cargo_jefe''],
     post_echo = EchoId ''id'',
     err_all = ''Error al obtener los jefes.'',
     msg_404 = ''Jefe no encontrado.'',
     err_one = ''Error al obtener el jefe.'',
     err_post = ''Error al crear el jefe.'',
     msg_put = ''Jefe actualizado correctamente.'',
     err_put = ''Error al actualizar el jefe.'',
     msg_delete = ''Jefe eliminado correctamente.'',
     err_delete = ''Error al eliminar el jefe.''\<rparr>"

definition programa :: resource where
  "programa = \<lparr>
     sql_all = ''SELECT * FROM p_programa'',
     sql_one = ''SELECT * FROM p_programa WHERE id_programa = ?'',
     sql_insert = ''INSERT INTO p_programa (nombre) VALUES (?)'',
     sql_update = ''UPDATE p_programa SET nombre = ? WHERE id_programa = ?'',
     sql_delete = ''DELETE FROM p_programa WHERE id_programa = ?'',
     post_fields = [''nombre''],
     put_fields = [''nombre''],
     post_echo = EchoId ''id_programa'',
     err_all = ''Error al obtener los programas.'',
     msg_404 = ''Programa no encontrado.'',
     err_one = ''Error al obtener el programa.'',
     err_post = ''Error al crear el programa.'',
     msg_put = ''Programa actualizado correctamente.'',
     err_put = ''Error al actualizar el programa.'',
     msg_delete = ''Programa eliminado correctamente.'',
     err_delete = ''Error al eliminar el programa.''\<rparr>"


definition get_all :: "resource \<Rightarrow> env \<Rightarrow> st \<Rightarrow> outcome \<times> st" where
  "get_all r ev =
     guarded ev (err_all r) (\<lambda>c.
       andThen (conn_query ev c (sql_all r) JUndefined) (\<lambda>rows. ret (200, rows)))"

definition get_one :: "resource \<Rightarrow> env \<Rightarrow> string \<Rightarrow> st \<Rightarrow> outcome \<times> st" where
  "get_one r ev key =
     guarded ev (err_one r) (\<lambda>c.
       andThen (conn_query ev c (sql_one r) (JArr [JStr key])) (\<lambda>rows.
       andThen (lift (get_prop rows ''length'')) (\<lambda>len.
         if is_zero len then ret (404, JObj [(''error'', JStr (msg_404 r))])
         else andThen (lift (get_prop rows ''0'')) (\<lambda>row. ret (200, row)))))"

definition post :: "resource \<Rightarrow> env \<Rightarrow> jsval \<Rightarrow> st \<Rightarrow> outcome \<times> st" where
  "post r ev body =
     guarded ev (err_post r) (\<lambda>c.
       andThen (lift (get_fields body (post_fields r))) (\<lambda>vals.
       andThen (conn_query ev c (sql_insert r) (JArr vals)) (\<lambda>res.
       andThen (lift (destructure_first res)) (\<lambda>result.
         case post_echo r of
           EchoId k \<Rightarrow>
             andThen (lift (get_prop result ''insertId'')) (\<lambda>i.
               ret (201, JObj ((k, i) # zip (post_fields r) vals)))
         | EchoIdBody \<Rightarrow>
             andThen (lift (get_prop result ''insertId'')) (\<lambda>i.
               ret (201, JObj (spread [(''id'', i)] (own_props body))))
         | EchoPlain \<Rightarrow> ret (201, JObj (zip (post_fields r) vals))))))"

definition put :: "resource \<Rightarrow> env \<Rightarrow> string \<Rightarrow> jsval \<Rightarrow> st \<Rightarrow> outcome \<times> st" where
  "put r ev key body =
     guarded ev (err_put r) (\<lambda>c.
       andThen (lift (get_fields body (put_fields r))) (\<lambda>vals.
       andThen (conn_query ev c (sql_update r) (JArr (vals @ [JStr key]))) (\<lambda>_.
         ret (200, JObj [(''message'', JStr (msg_put r))]))))"

definition delete :: "resource \<Rightarrow> env \<Rightarrow> string \<Rightarrow> st \<Rightarrow> outcome \<times> st" where
  "delete r ev key =
     guarded ev (err_delete r) (\<lambda>c.
       andThen (conn_query ev c (sql_delete r) (JArr [JStr key])) (\<lambda>_.
         ret (200, JObj [(''message'', JStr (msg_delete r))])))"

section \<open>The bulk import (routes/upload.js)\<close>

definition getOrCreate_io :: "env \<Rightarrow> conn \<Rightarrow> string \<Rightarrow> obj \<Rightarrow> string \<Rightarrow> jsval io" where
  "getOrCreate_io ev c table data uniqueField s =
     (case getOrCreate ev c table data uniqueField s of ((r, data'), s') \<Rightarrow> (r, s'))"

definition practica_select :: string where
  "practica_select =
     ''SELECT * FROM p_practica WHERE id_estudiante = ? AND id_empresa = ? AND id_programa = ?''"

definition practica_update :: string where
  "practica_update = ''UPDATE p_practica SET ? WHERE id_practica = ?''"

definition practica_insert :: string where
  "practica_insert = ''INSERT INTO p_practica SET ?''"

text \<open>
  The last step of a turn:
  \<^verbatim>\<open>const [practicaRows] = await connection.query(`SELECT ...`, [...]); if (practicaRows.length > 0) { UPDATE } else { INSERT }\<close>
\<close>

definition upsert_practica :: "env \<Rightarrow> conn \<Rightarrow> jsval \<Rightarrow> jsval \<Rightarrow> jsval \<Rightarrow> jsval \<Rightarrow> unit io" where
  "upsert_practica ev c practicaData id_estudiante id_empresa id_programa =
     andThen (conn_query ev c practica_select
                (JArr [id_estudiante, id_empresa, id_programa])) (\<lambda>found.
     andThen (lift (destructure_first found)) (\<lambda>practicaRows.
     andThen (lift (get_prop practicaRows ''length'')) (\<lambda>len.
       if gt_zero len
       then andThen (lift (get_prop practicaRows ''0'')) (\<lambda>first.
            andThen (lift (get_prop first ''id_practica'')) (\<lambda>id_practica.
            andThen (conn_query ev c practica_update (JArr [practicaData, id_practica])) (\<lambda>_.
              ret ())))
       else andThen (conn_query ev c practica_insert practicaData) (\<lambda>_.
              ret ()))))"

text \<open>One turn of the loop over the rows of the sheet.\<close>

definition process_row :: "env \<Rightarrow> conn \<Rightarrow> obj \<Rightarrow> unit io" where
  "process_row ev c row =
     andThen (getOrCreate_io ev c ''p_cargo_contacto''
                [(''nombre'', obj_get row (''CARGO DEL CONTACTO''))] ''nombre'') (\<lambda>cargoContacto.
     andThen (lift (get_prop cargoContacto ''id_cargo_contacto'')) (\<lambda>id_cargo_contacto.
     andThen (getOrCreate_io ev c ''p_contacto''
                [(''nombre'', obj_get row (''CONTACTO'')),
                 (''telefono'', obj_get row (''TELEFONO CONTACTO'')),
                 (''celular'', obj_get row (''CELULAR CONTACTO'')),
                 (''email'', obj_get row (''E MAIL CONTACTO'')),
                 (''id_cargo_contacto'', id_cargo_contacto)] ''email'') (\<lambda>contacto.
     andThen (lift (get_prop contacto ''id_contacto'')) (\<lambda>id_contacto.
     andThen (getOrCreate_io ev c ''p_empresa''
                [(''nit'', obj_get row (''NIT'')),
                 (''razon_social'', obj_get row (''EMPRESA DONDE REALIZA LA PR'' @ [CHR 0xC1] @ ''CTICA'')),
                 (''direccion'', obj_get row (''DIRECCION CONTACTO'')),
                 (''id_jefe_inmediato'', id_contacto)] ''nit'') (\<lambda>empresa.
     andThen (getOrCreate_io ev c ''p_programa''
                [(''nombre'', obj_get row (''PROGRAMA''))] ''nombre'') (\<lambda>programa.
     andThen (getOrCreate_io ev c ''p_estudiante''
                [(''nombres'', obj_get row (''APELLIDOS Y NOMBRES'')),
                 (''edad'', obj_get row (''EDAD'')),
                 (''celular'', obj_get row (''CELULAR'')),
                 (''direccion'', obj_get row (''DIRECCION RESIDENCIA'')),
                 (''telefono'', obj_get row (''TEL'' @ [CHR 0xC9] @ ''FONO RESIDENCIA'')),
                 (''email'', obj_get row (''CORREO JEFE INMEDIATO'')),
                 (''id_contacto'', id_contacto)] ''email'') (\<lambda>estudiante.
     andThen (lift (get_prop programa ''id_programa'')) (\<lambda>id_programa.
     andThen (lift (get_prop estudiante ''id_estudiante'')) (\<lambda>id_estudiante.
     andThen (lift (get_prop empresa ''id_empresa'')) (\<lambda>id_empresa.
     andThen (ret (JObj
                [(''id_programa'', id_programa),
                 (''id_estudiante'', id_estudiante),
                 (''id_empresa'', id_empresa),
                 (''fec_inicio'', serial_date (obj_get row (''FECHA INICIO''))),
                 (''fec_termina'', serial_date (obj_get row (''FECHA TERMINACI'' @ [CHR 0xD3] @ ''N''))),
                 (''dias_pract'', obj_get row (''TOTAL DIAS EN PRACTICA''))])) (\<lambda>practicaData.
       upsert_practica ev c practicaData id_estudiante id_empresa id_programa)))))))))))"

fun process_rows :: "env \<Rightarrow> conn \<Rightarrow> obj list \<Rightarrow> unit io" where
  "process_rows ev c [] = ret ()"
| "process_rows ev c (row # rows) = andThen (process_row ev c row) (\<lambda>_. process_rows ev c rows)"

text \<open>
  The uploaded request: no file, or a workbook, given by its sheets with the rows that
  \<open>sheet_to_json\<close> reads from each.
\<close>

datatype upload = NoFile | Workbook "(string \<times> obj list) list"

text \<open>The \<open>try\<close> block of the import.\<close>

definition import_rows :: "env \<Rightarrow> conn \<Rightarrow> obj list \<Rightarrow> unit io" where
  "import_rows ev c jsonData =
     andThen (conn_query ev c ''BEGIN'' JUndefined) (\<lambda>_.
     andThen (process_rows ev c jsonData) (\<lambda>_.
     andThen (conn_query ev c ''COMMIT'' JUndefined) (\<lambda>_. ret ())))"

definition upload_handler :: "env \<Rightarrow> upload \<Rightarrow> st \<Rightarrow> outcome \<times> st" where
  "upload_handler ev file s =
     (case file of
        NoFile \<Rightarrow> (Responded 400 (JObj [(''error'', JStr (''No se ha subido ning'' @ [CHR 0xFA] @ ''n archivo.''))]), s)
      | Workbook sheets \<Rightarrow>
          (case map_of sheets ''Datos'' of
             None \<Rightarrow> (Responded 400 (JObj [(''error'', JStr (''La hoja con nombre '' @ [CHR 0x22] @ ''Datos'' @ [CHR 0x22] @ '' no existe.''))]), s)
           | Some jsonData \<Rightarrow>
               (case getConnection ev s of
                  (Inl e, s0) \<Rightarrow> (Rejected e, s0)
                | (Inr c, s0) \<Rightarrow>
                    (case import_rows ev c jsonData s0 of
                       (Inr _, s1) \<Rightarrow>
                         (Responded 200 (JObj [(''message'', JStr
                            ''Archivo procesado e insertado en la base de datos correctamente.'')]),
                          conn_release c s1)
                     | (Inl err, s1) \<Rightarrow>
                         (case conn_query ev c ''ROLLBACK'' JUndefined s1 of
                            (Inl e, s2) \<Rightarrow> (Rejected e, conn_release c s2)
                          | (Inr _, s2) \<Rightarrow>
                              (Responded 500 (JObj [(''error'', JStr
                                 ''Error al insertar en la base de datos.'')]),
                               conn_release c s2))))))"

section \<open>The routes as one service (index.js)\<close>

datatype request =
    GetAll resource
  | GetOne resource string
  | Post resource jsval
  | Put resource string jsval
  | Delete resource string
  | Upload upload

definition serve :: "env \<Rightarrow> request \<Rightarrow> st \<Rightarrow> outcome \<times> st" where
  "serve ev rq s = (case rq of
       GetAll r \<Rightarrow> get_all r ev s
     | GetOne r key \<Rightarrow> get_one r ev key s
     | Post r body \<Rightarrow> post r ev body s
     | Put r key body \<Rightarrow> put r ev key body s
     | Delete r key \<Rightarrow> delete r ev key s
     | Upload file \<Rightarrow> upload_handler ev file s)"

section \<open>Driver results and a concrete environment\<close>

text \<open>
  The raw values the two drivers resolve to. mysql2 gives the pair \<open>[rows, fields]\<close> for a
  select and \<open>[header, undefined]\<close> for a statement that writes, the header carrying
  \<open>affectedRows\<close> and \<open>insertId\<close>; pg gives one object with \<open>rowCount\<close> and \<open>rows\<close>.
\<close>

definition mysql_rows :: "jsval list \<Rightarrow> jsval" where
  "mysql_rows rows = JArr [JArr rows, JArr []]"

definition mysql_header :: "int \<Rightarrow> int \<Rightarrow> jsval" where
  "mysql_header affected insertId =
     JArr [JObj [(''fieldCount'', JNum 0), (''affectedRows'', JNum affected),
                 (''insertId'', JNum insertId), (''info'', JStr []),
                 (''serverStatus'', JNum 2), (''warningStatus'', JNum 0)],
           JUndefined]"

definition pg_result :: "string \<Rightarrow> jsval list \<Rightarrow> int \<Rightarrow> jsval" where
  "pg_result command rows rowCount =
     JObj [(''command'', JStr command), (''rowCount'', JNum rowCount), (''rows'', JArr rows)]"

text \<open>
  Modelled from the spec: the \<open>format\<close> of the MySQL driver, which is not part of the
  repository. It renders the statement with the literal value of each parameter in place of
  the markers, in order, and a Record as a list of \<open>column = value\<close> pairs. Strings are
  quoted as they are; escaping is left out. It serves to run the handlers on concrete inputs.
\<close>

fun sql_literal :: "jsval \<Rightarrow> string" where
  "sql_literal JUndefined = ''NULL''"
| "sql_literal JNull = ''NULL''"
| "sql_literal JNaN = ''NaN''"
| "sql_literal (JBool b) = (if b then ''true'' else ''false'')"
| "sql_literal (JNum n) = show_int n"
| "sql_literal (JStr s) = [CHR 0x27] @ s @ [CHR 0x27]"
| "sql_literal (JObj kvs) =
     join '', '' (map (\<lambda>kv. [CHR 0x60] @ fst kv @ [CHR 0x60] @ '' = '' @ sql_literal (snd kv)) kvs)"
| "sql_literal (JArr xs) = join '', '' (map sql_literal xs)"

fun mysql_subst :: "jsval list \<Rightarrow> string \<Rightarrow> string" where
  "mysql_subst vs [] = []"
| "mysql_subst [] (c # cs) = c # cs"
| "mysql_subst (v # vs) (c # cs) =
     (if c = CHR ''?'' then sql_literal v @ mysql_subst vs cs else c # mysql_subst (v # vs) cs)"

definition mysql_format :: "string \<Rightarrow> jsval \<Rightarrow> error + string" where
  "mysql_format sql values =
     Inr (if nullish values then sql
          else mysql_subst (case values of JArr xs \<Rightarrow> xs | _ \<Rightarrow> [values]) sql)"

definition env_mysql :: env where
  "env_mysql = \<lparr>dbType = Some ''mysql'', pool_error = None, lib_format = mysql_format\<rparr>"

definition env_postgres :: env where
  "env_postgres = \<lparr>dbType = Some ''postgres'', pool_error = None, lib_format = mysql_format\<rparr>"

text \<open>A stored row of \<open>p_programa\<close>, for concrete runs.\<close>

definition programa_row :: jsval where
  "programa_row = JObj [(''id_programa'', JNum 3), (''nombre'', JStr ''Sistemas'')]"

text \<open>A request body for \<open>POST /practica\<close>.\<close>

definition practica_body :: jsval where
  "practica_body = JObj
     [(''clasificaciones'', JStr ''A''), (''no_folio'', JNum 12),
      (''fecha_entrega_facultad'', JStr ''2024-02-01''), (''numero_practica_inscribe'', JNum 1),
      (''fecha_inscripcion_materia'', JStr ''2024-01-15''), (''nrc'', JStr ''5021''),
      (''programa'', JStr ''Sistemas''), (''documento_estudiante'', JStr ''1010''),
      (''id_empresa'', JNum 2), (''id_contacto'', JNum 3), (''id_jefe'', JNum 4)]"

text \<open>
  A row of the sheet \<open>Datos\<close>, the stored rows its entities resolve to, and two scripts of
  MySQL replies: one where every entity and the internship row already exist, one where the
  database is empty and each get-or-create inserts.
\<close>

definition sample_row :: obj where
  "sample_row =
     [(''APELLIDOS Y NOMBRES'', JStr ''Perez Ana''), (''EDAD'', JNum 21),
      (''CELULAR'', JStr ''3001112233''), (''DIRECCION RESIDENCIA'', JStr ''Calle 1''),
      (''TEL'' @ [CHR 0xC9] @ ''FONO RESIDENCIA'', JStr ''6011234''),
      (''PROGRAMA'', JStr ''Sistemas''),
      (''EMPRESA DONDE REALIZA LA PR'' @ [CHR 0xC1] @ ''CTICA'', JStr ''Acme''),
      (''NIT'', JStr ''900123''), (''CONTACTO'', JStr ''Luis Diaz''),
      (''CARGO DEL CONTACTO'', JStr ''Gerente''), (''TELEFONO CONTACTO'', JStr ''6015550''),
      (''CELULAR CONTACTO'', JStr ''3105550''), (''E MAIL CONTACTO'', JStr ''luis@acme.co''),
      (''DIRECCION CONTACTO'', JStr ''Carrera 7''),
      (''CORREO JEFE INMEDIATO'', JStr ''jefe@acme.co''),
      (''FECHA INICIO'', JNum 45293),
      (''FECHA TERMINACI'' @ [CHR 0xD3] @ ''N'', JNum 45473),
      (''TOTAL DIAS EN PRACTICA'', JNum 180)]"

definition cargo_row :: jsval where
  "cargo_row = JObj [(''id_cargo_contacto'', JNum 1), (''nombre'', JStr ''Gerente'')]"

definition contacto_row :: jsval where
  "contacto_row = JObj [(''id_contacto'', JNum 2), (''nombre'', JStr ''Luis Diaz''),
                        (''email'', JStr ''luis@acme.co''), (''id_cargo_contacto'', JNum 1)]"

definition empresa_row :: jsval where
  "empresa_row = JObj [(''id_empresa'', JNum 5), (''nit'', JStr ''900123''),
                       (''razon_social'', JStr ''Acme''), (''id_jefe_inmediato'', JNum 2)]"

definition estudiante_row :: jsval where
  "estudiante_row = JObj [(''id_estudiante'', JNum 4), (''nombres'', JStr ''Perez Ana''),
                          (''email'', JStr ''jefe@acme.co''), (''id_contacto'', JNum 2)]"

definition practica_row :: jsval where
  "practica_row = JObj [(''id_practica'', JNum 9), (''id_programa'', JNum 3),
                        (''id_estudiante'', JNum 4), (''id_empresa'', JNum 5),
                        (''dias_pract'', JNum 180)]"

definition rerun_replies :: "reply list" where
  "rerun_replies =
     [Inr (mysql_header 0 0),
      Inr (mysql_rows [cargo_row]), Inr (mysql_rows [contacto_row]), Inr (mysql_rows [empresa_row]),
      Inr (mysql_rows [programa_row]), Inr (mysql_rows [estudiante_row]),
      Inr (mysql_rows [practica_row]),
      Inr (mysql_header 1 10),
      Inr (mysql_header 0 0)]"

definition fresh_replies :: "reply list" where
  "fresh_replies =
     [Inr (mysql_header 0 0),
      Inr (mysql_rows []), Inr (mysql_header 1 1), Inr (mysql_rows [cargo_row]),
      Inr (mysql_rows []), Inr (mysql_header 1 2), Inr (mysql_rows [contacto_row]),
      Inr (mysql_rows []), Inr (mysql_header 1 5), Inr (mysql_rows [empresa_row]),
      Inr (mysql_rows []), Inr (mysql_header 1 3), Inr (mysql_rows [programa_row]),
      Inr (mysql_rows []), Inr (mysql_header 1 4), Inr (mysql_rows [estudiante_row]),
      Inr (mysql_rows []),
      Inr (mysql_header 0 0)]"

text \<open>A fresh request: nothing sent, no connection taken, the given replies to come.\<close>

definition start :: "reply list \<Rightarrow> st" where
  "start replies = \<lparr>pending = replies, sent = [], acquired = 0, released = 0\<rparr>"

text \<open>An action that only adds to the statements sent.\<close>

definition grows :: "'a io \<Rightarrow> bool" where
  "grows m = (\<forall>s. \<exists>xs. sent (snd (m s)) = sent s @ xs)"

text \<open>An action that neither takes nor releases a connection.\<close>

definition keeps :: "'a io \<Rightarrow> bool" where
  "keeps m = (\<forall>s. acquired (snd (m s)) = acquired s \<and> released (snd (m s)) = released s)"

section \<open>Properties of the placeholder translation\<close>

lemma replaceMarks_plain:
  "CHR ''?'' \<notin> set seg \<Longrightarrow> replaceMarks i (seg @ rest) = seg @ replaceMarks i rest"
  by (induction seg) auto

lemma replaceMarks_segments:
  "\<forall>seg\<in>set segs. CHR ''?'' \<notin> set seg \<Longrightarrow>
   replaceMarks i (concat (map (\<lambda>seg. CHR ''?'' # seg) segs)) =
   concat (map (\<lambda>(k, seg). CHR ''$'' # decimal k @ seg) (zip [Suc i..<Suc i + length segs] segs))"
proof (induction segs arbitrary: i)
  case Nil
  then show ?case by simp
next
  case (Cons seg segs)
  have up: "[Suc i..<Suc i + length (seg # segs)] = Suc i # [Suc (Suc i)..<Suc (Suc i) + length segs]"
    by (simp add: upt_rec)
  from Cons.prems have a: "CHR ''?'' \<notin> set seg" and b: "\<forall>seg\<in>set segs. CHR ''?'' \<notin> set seg"
    by simp_all
  show ?case
    unfolding up using Cons.IH [OF b, of "Suc i"] a
    by (simp add: replaceMarks_plain)
qed

lemma decimal_digits: "set (decimal n) \<subseteq> set ''0123456789''"
proof (induction n rule: decimal.induct)
  case (1 n)
  have d: "\<And>k. k < 10 \<Longrightarrow> ''0123456789'' ! k \<in> set ''0123456789''"
    by (rule nth_mem) simp
  show ?case
  proof (cases "n < 10")
    case True
    then show ?thesis using d [of n] by (subst decimal.simps) simp
  next
    case False
    have "n mod 10 < 10" by simp
    with False 1 d [of "n mod 10"] show ?thesis by (subst decimal.simps) auto
  qed
qed

text \<open>Every statement is some text, then markers each followed by text free of markers.\<close>

lemma statement_segments:
  "\<exists>seg0 segs. CHR ''?'' \<notin> set seg0 \<and> (\<forall>seg\<in>set segs. CHR ''?'' \<notin> set seg) \<and>
     length segs = count_list s (CHR ''?'') \<and>
     s = seg0 @ concat (map (\<lambda>seg. CHR ''?'' # seg) segs)"
proof (induction s)
  case Nil
  show ?case by (rule exI [of _ "[]"], rule exI [of _ "[]"]) simp
next
  case (Cons c s)
  then obtain seg0 segs where h: "CHR ''?'' \<notin> set seg0" "\<forall>seg\<in>set segs. CHR ''?'' \<notin> set seg"
    "length segs = count_list s (CHR ''?'')" "s = seg0 @ concat (map (\<lambda>seg. CHR ''?'' # seg) segs)"
    by blast
  show ?case
  proof (cases "c = CHR ''?''")
    case True
    with h show ?thesis
      by (intro exI [of _ "[]"] exI [of _ "seg0 # segs"]) simp
  next
    case False
    with h show ?thesis
      by (intro exI [of _ "c # seg0"] exI [of _ segs]) simp
  qed
qed

text \<open>
  Claim C4. A statement whose text is \<open>seg0 ? seg1 ? ... ? segN\<close> (the segments free of
  markers) is translated to \<open>seg0 $1 seg1 $2 ... $N segN\<close>: the Kth marker becomes
  \<open>$K\<close>, numbered 1 to N from left to right, and every segment is kept as it is.
\<close>

theorem convert_numbers_markers:
  assumes "CHR ''?'' \<notin> set seg0" and "\<forall>seg\<in>set segs. CHR ''?'' \<notin> set seg"
  shows "convertQuestionMarksToDollarSigns (seg0 @ concat (map (\<lambda>seg. CHR ''?'' # seg) segs)) =
         seg0 @ concat (map (\<lambda>(k, seg). CHR ''$'' # decimal k @ seg) (zip [1..<Suc (length segs)] segs))"
  using assms replaceMarks_segments [of segs 0]
  by (simp add: convertQuestionMarksToDollarSigns_def replaceMarks_plain)

theorem convert_numbers_markers_witness:
  "convertQuestionMarksToDollarSigns ''UPDATE t SET a = ?, b = ? WHERE id = ?'' =
   ''UPDATE t SET a = $1, b = $2 WHERE id = $3''"
  using convert_numbers_markers [of "''UPDATE t SET a = ''" "['', b = '', '' WHERE id = '', '''']"]
  by (simp add: upt_rec decimal.simps)

section \<open>Running the adapter against a script\<close>

lemma andThen_lift_Inr: "andThen (lift (Inr x)) f s = f x s"
  by (simp add: andThen_def lift_def)

lemma andThen_lift_Inl: "andThen (lift (Inl e)) f s = (Inl e, s)"
  by (simp add: andThen_def lift_def)

lemma andThen_ret: "andThen (ret x) f s = f x s"
  by (simp add: andThen_def ret_def)

lemma andThen_Inr: "m s = (Inr x, s') \<Longrightarrow> andThen m f s = f x s'"
  by (simp add: andThen_def)

lemma andThen_Inl: "m s = (Inl e, s') \<Longrightarrow> andThen m f s = (Inl e, s')"
  by (simp add: andThen_def)

lemma conn_query_ok:
  "pending s = Inr raw # rest \<Longrightarrow> unwrap_result raw = Inr v \<Longrightarrow>
   conn_query ev c sql ps s = (Inr v, s\<lparr>pending := rest, sent := sent s @ [(translate ev sql, ps)]\<rparr>)"
  by (simp add: conn_query_def queryWrapper_def client_query_def andThen_def lift_def)

lemma conn_query_fail:
  "pending s = Inl e # rest \<Longrightarrow>
   conn_query ev c sql ps s = (Inl e, s\<lparr>pending := rest, sent := sent s @ [(translate ev sql, ps)]\<rparr>)"
  by (simp add: conn_query_def queryWrapper_def client_query_def andThen_def lift_def)

lemma rows_length: "get_prop (JArr xs) ''length'' = Inr (JNum (int (length xs)))"
  by (simp add: get_prop_def)

lemma rows_first: "get_prop (JArr (x # xs)) ''0'' = Inr x"
  by (simp add: get_prop_def array_index_def)

lemma gt_zero_len: "gt_zero (JNum n) = (0 < n)"
  by (simp add: gt_zero_def to_number_def)

lemma getOrCreate_find_hit:
  assumes "conn_format ev c (select_by table uniqueField) (JArr [obj_get data uniqueField]) = Inr q"
    and "pending s = Inr raw # rest"
    and "unwrap_result raw = Inr (JArr (row # others))"
  shows "getOrCreate_find ev c table data uniqueField s =
         (Inr (Some row), s\<lparr>pending := rest, sent := sent s @ [(translate ev q, JUndefined)]\<rparr>)"
  using assms
  by (simp add: getOrCreate_find_def andThen_lift_Inr conn_query_ok [OF assms(2,3)] andThen_def
      rows_length rows_first gt_zero_len lift_def ret_def)

lemma getOrCreate_find_miss:
  assumes "conn_format ev c (select_by table uniqueField) (JArr [obj_get data uniqueField]) = Inr q"
    and "pending s = Inr raw # rest"
    and "unwrap_result raw = Inr (JArr [])"
  shows "getOrCreate_find ev c table data uniqueField s =
         (Inr None, s\<lparr>pending := rest, sent := sent s @ [(translate ev q, JUndefined)]\<rparr>)"
  using assms
  by (simp add: getOrCreate_find_def andThen_lift_Inr conn_query_ok [OF assms(2,3)] andThen_def
      rows_length gt_zero_len lift_def ret_def)

lemma getOrCreate_insert_ok:
  assumes "conn_format ev c (''INSERT INTO '' @ table @ '' SET ?'') (JObj data) = Inr q"
    and "pending s = Inr raw # rest"
    and "unwrap_result raw = Inr res"
    and "assigned_id res = Inr newId"
  shows "getOrCreate_insert ev c table data s =
         (Inr (obj_set data ''id'' newId),
          s\<lparr>pending := rest, sent := sent s @ [(translate ev q, JUndefined)]\<rparr>)"
  using assms
  by (simp add: getOrCreate_insert_def andThen_lift_Inr conn_query_ok [OF assms(2,3)] andThen_def
      lift_def ret_def)

lemma getOrCreate_reselect_ok:
  assumes "conn_format ev c (select_by table uniqueField) (JArr [obj_get data uniqueField]) = Inr q"
    and "pending s = Inr raw # rest"
    and "unwrap_result raw = Inr (JArr rows2)"
  shows "getOrCreate_reselect ev c table data uniqueField s =
         (Inr (case rows2 of [] \<Rightarrow> JObj data | row # _ \<Rightarrow> JObj (spread data (own_props row))),
          s\<lparr>pending := rest, sent := sent s @ [(translate ev q, JUndefined)]\<rparr>)"
  using assms
  by (cases rows2)
     (simp_all add: getOrCreate_reselect_def andThen_lift_Inr conn_query_ok [OF assms(2,3)] andThen_def
      rows_length rows_first gt_zero_len lift_def ret_def)


section \<open>Records as association lists\<close>

lemma map_of_obj_set: "map_of (obj_set al k v) = (map_of al)(k \<mapsto> v)"
  by (induction al) auto

lemma keys_obj_set: "fst ` set (obj_set al k v) = insert k (fst ` set al)"
  by (induction al) auto

lemma obj_get_obj_set: "obj_get (obj_set al k v) j = (if j = k then v else obj_get al j)"
  by (simp add: obj_get_def map_of_obj_set)

lemma map_of_fold_obj_set:
  "map_of (fold (\<lambda>(k, v) acc. obj_set acc k v) xs acc) = map_of acc ++ map_of (rev xs)"
proof (induction xs arbitrary: acc)
  case Nil
  show ?case by simp
next
  case (Cons x xs)
  obtain k v where x: "x = (k, v)" by (cases x)
  show ?case
    by (simp add: x Cons.IH map_of_obj_set map_add_def fun_eq_iff split: option.splits)
qed

lemma keys_fold_obj_set:
  "fst ` set (fold (\<lambda>(k, v) acc. obj_set acc k v) xs acc) = fst ` set acc \<union> fst ` set xs"
proof (induction xs arbitrary: acc)
  case Nil
  show ?case by simp
next
  case (Cons x xs)
  obtain k v where x: "x = (k, v)" by (cases x)
  show ?case by (simp add: x Cons.IH keys_obj_set)
qed

lemma map_of_rev_distinct:
  assumes "distinct (map fst xs)"
  shows "map_of (rev xs) = map_of xs"
proof
  fix k
  have d: "distinct (map fst (rev xs))"
    using assms by (metis distinct_rev rev_map)
  show "map_of (rev xs) k = map_of xs k"
  proof (cases "map_of xs k")
    case None
    then have "k \<notin> fst ` set (rev xs)" by (simp add: map_of_eq_None_iff)
    then have "map_of (rev xs) k = None" by (simp add: map_of_eq_None_iff)
    with None show ?thesis by simp
  next
    case (Some v)
    then have "(k, v) \<in> set (rev xs)" by (simp add: map_of_SomeD)
    with d have "map_of (rev xs) k = Some v" by (metis map_of_eq_Some_iff)
    with Some show ?thesis by simp
  qed
qed

lemma keys_spread: "fst ` set (spread a b) = fst ` set a \<union> fst ` set b"
  by (simp add: spread_def keys_fold_obj_set image_Un)

lemma obj_get_spread:
  assumes "distinct (map fst a)" and "distinct (map fst b)"
  shows "obj_get (spread a b) k = (if k \<in> fst ` set b then obj_get b k else obj_get a k)"
proof -
  have m: "map_of (spread a b) = map_of a ++ map_of b"
    using assms by (simp add: spread_def map_of_fold_obj_set map_of_rev_distinct)
  show ?thesis
  proof (cases "map_of b k")
    case None
    then have "k \<notin> fst ` set b" by (simp add: map_of_eq_None_iff)
    with None show ?thesis by (simp add: obj_get_def m map_add_def)
  next
    case (Some v)
    then have "k \<in> fst ` set b" by (metis map_of_eq_None_iff option.distinct(1))
    with Some show ?thesis by (simp add: obj_get_def m map_add_def)
  qed
qed

lemma distinct_obj_set: "distinct (map fst al) \<Longrightarrow> distinct (map fst (obj_set al k v))"
  by (induction al) (auto simp: keys_obj_set)

section \<open>Get-or-create: the found path, the insert path, the caller's record\<close>

lemma unwrap_mysql_rows: "unwrap_result (mysql_rows rows) = Inr (JArr rows)"
  by (simp add: unwrap_result_def mysql_rows_def get_prop_def array_index_def truthy_def)

lemma unwrap_mysql_header:
  "unwrap_result (mysql_header a i) =
   Inr (JObj [(''fieldCount'', JNum 0), (''affectedRows'', JNum a),
              (''insertId'', JNum i), (''info'', JStr []),
              (''serverStatus'', JNum 2), (''warningStatus'', JNum 0)])"
  by (simp add: unwrap_result_def mysql_header_def get_prop_def array_index_def truthy_def)

lemma unwrap_pg_result: "unwrap_result (pg_result cmd rows n) = Inr (JArr rows)"
  by (simp add: unwrap_result_def pg_result_def get_prop_def obj_get_def truthy_def)

lemma assigned_id_header:
  "i \<noteq> 0 \<Longrightarrow> assigned_id (JObj [(''fieldCount'', JNum 0), (''affectedRows'', JNum a),
              (''insertId'', JNum i), (''info'', JStr []),
              (''serverStatus'', JNum 2), (''warningStatus'', JNum 0)]) = Inr (JNum i)"
  by (simp add: assigned_id_def get_prop_def obj_get_def truthy_def)

text \<open>
  Claim C3. The PostgreSQL \<open>format\<close> does not put the Kth parameter in place of the Kth
  marker: it reads the parameter at the offset of the marker in the statement, minus one, and
  writes \<open>$\<close> before it. In the select built by get-or-create the marker stands at
  the end of the statement, so the one parameter is never read; a Record given for
  \<open>SET ?\<close> is not expanded.
\<close>

theorem pg_format_uses_offset:
  "pg_format ''SELECT * FROM p_programa WHERE nombre = ?'' (JArr [JStr ''Sistemas'']) =
     Inr ''SELECT * FROM p_programa WHERE nombre = $undefined'' \<and>
   pg_format ''INSERT INTO p_programa SET ?'' (JObj [(''nombre'', JStr ''Sistemas'')]) =
     Inr ''INSERT INTO p_programa SET $undefined''"
  by (simp add: pg_format_def get_prop_def show_int_def decimal.simps array_index_def obj_get_def)

text \<open>
  The found path, given the replies: when the first select yields at least one row,
  get-or-create returns the first row as it is, leaves the caller's record alone and sends
  the select and nothing else, so no insert. Called again with the same arguments while the
  select still yields that row first, it returns the same row and has again sent only the
  select.
\<close>

lemma getOrCreate_found:
  assumes "conn_format ev c (select_by table uniqueField) (JArr [obj_get data uniqueField]) = Inr q"
    and "pending s = Inr raw1 # rest1"
    and "unwrap_result raw1 = Inr (JArr (row # others))"
  shows "getOrCreate ev c table data uniqueField s =
           ((Inr row, data), s\<lparr>pending := rest1, sent := sent s @ [(translate ev q, JUndefined)]\<rparr>) \<and>
         (\<forall>raw2 rest2 others2.
            rest1 = Inr raw2 # rest2 \<longrightarrow> unwrap_result raw2 = Inr (JArr (row # others2)) \<longrightarrow>
            getOrCreate ev c table data uniqueField
              (s\<lparr>pending := rest1, sent := sent s @ [(translate ev q, JUndefined)]\<rparr>) =
            ((Inr row, data),
             s\<lparr>pending := rest2,
               sent := sent s @ [(translate ev q, JUndefined), (translate ev q, JUndefined)]\<rparr>))"
proof (intro conjI allI impI)
  show "getOrCreate ev c table data uniqueField s =
        ((Inr row, data), s\<lparr>pending := rest1, sent := sent s @ [(translate ev q, JUndefined)]\<rparr>)"
    by (simp add: getOrCreate_def getOrCreate_find_hit [OF assms])
next
  fix raw2 rest2 others2
  assume r: "rest1 = Inr raw2 # rest2" and u: "unwrap_result raw2 = Inr (JArr (row # others2))"
  let ?s1 = "s\<lparr>pending := rest1, sent := sent s @ [(translate ev q, JUndefined)]\<rparr>"
  have p: "pending ?s1 = Inr raw2 # rest2" using r by simp
  show "getOrCreate ev c table data uniqueField ?s1 =
        ((Inr row, data),
         s\<lparr>pending := rest2, sent := sent s @ [(translate ev q, JUndefined), (translate ev q, JUndefined)]\<rparr>)"
    by (simp add: getOrCreate_def getOrCreate_find_hit [OF assms(1) p u])
qed



lemma format_select_programa:
  "conn_format env_mysql MysqlConn (select_by ''p_programa'' ''nombre'')
     (JArr [obj_get [(''nombre'', JStr ''Sistemas'')] ''nombre'']) =
   Inr (''SELECT * FROM p_programa WHERE nombre = '' @ [CHR 0x27] @ ''Sistemas'' @ [CHR 0x27])"
  by (simp add: conn_format_def env_mysql_def mysql_format_def select_by_def obj_get_def nullish_def)

text \<open>A run of the found path on MySQL, where the driver's own format builds the select.\<close>

lemma getOrCreate_found_mysql:
  "getOrCreate env_mysql MysqlConn ''p_programa'' [(''nombre'', JStr ''Sistemas'')] ''nombre''
     (start [Inr (mysql_rows [programa_row]), Inr (mysql_rows [programa_row])]) =
   ((Inr programa_row, [(''nombre'', JStr ''Sistemas'')]),
    \<lparr>pending = [Inr (mysql_rows [programa_row])],
     sent = [(''SELECT * FROM p_programa WHERE nombre = '' @ [CHR 0x27] @ ''Sistemas'' @ [CHR 0x27], JUndefined)],
     acquired = 0, released = 0\<rparr>) \<and>
   getOrCreate env_mysql MysqlConn ''p_programa'' [(''nombre'', JStr ''Sistemas'')] ''nombre''
     \<lparr>pending = [Inr (mysql_rows [programa_row])],
      sent = [(''SELECT * FROM p_programa WHERE nombre = '' @ [CHR 0x27] @ ''Sistemas'' @ [CHR 0x27], JUndefined)],
      acquired = 0, released = 0\<rparr> =
   ((Inr programa_row, [(''nombre'', JStr ''Sistemas'')]),
    \<lparr>pending = [],
     sent = [(''SELECT * FROM p_programa WHERE nombre = '' @ [CHR 0x27] @ ''Sistemas'' @ [CHR 0x27], JUndefined),
             (''SELECT * FROM p_programa WHERE nombre = '' @ [CHR 0x27] @ ''Sistemas'' @ [CHR 0x27], JUndefined)],
     acquired = 0, released = 0\<rparr>)"
proof -
  have p: "pending (start [Inr (mysql_rows [programa_row]), Inr (mysql_rows [programa_row])]) =
           Inr (mysql_rows [programa_row]) # [Inr (mysql_rows [programa_row])]"
    by (simp add: start_def)
  have u: "unwrap_result (mysql_rows [programa_row]) = Inr (JArr (programa_row # []))"
    by (simp add: unwrap_mysql_rows)
  from getOrCreate_found [OF format_select_programa p u]
  show ?thesis
    by (simp add: start_def translate_def env_mysql_def unwrap_mysql_rows)
qed

text \<open>
  Claim C5. On PostgreSQL the select of get-or-create is built by the adapter's own
  \<open>format\<close>, which writes \<open>$undefined\<close> for the marker whatever the record holds (the
  defect of claim C3). The value of the unique field never reaches the database: a record
  whose value matches a stored row is not looked up, the server rejects the statement, and
  the call throws where the stored row was to be returned.
\<close>

theorem getOrCreate_postgres_never_looks_up:
  "getOrCreate env_postgres PgConn ''p_programa'' data ''nombre''
     (start [Inl (Error ''syntax error at or near $'')]) =
   ((Inl (Error ''syntax error at or near $''), data),
    \<lparr>pending = [],
     sent = [(''SELECT * FROM p_programa WHERE nombre = $undefined'', JUndefined)],
     acquired = 0, released = 0\<rparr>)"
  by (simp add: getOrCreate_def getOrCreate_find_def conn_format_def pg_format_def select_by_def
      get_prop_def show_int_def decimal.simps array_index_def andThen_def lift_def conn_query_def
      queryWrapper_def client_query_def translate_def env_postgres_def start_def
      convertQuestionMarksToDollarSigns_def)

text \<open>
  Claim C6. When the first select yields no row and the insert succeeds, get-or-create has
  sent three statements, the select, one insert and the select again. It returns the record
  carrying the assigned identifier under \<open>id\<close> when the second select yields nothing, and
  otherwise the merge of that record with the first row found: each column of the stored
  row with the stored value, every other field with the value of the record, all keys of
  both present.
\<close>

theorem getOrCreate_insert_path:
  assumes sel: "conn_format ev c (select_by table uniqueField) (JArr [obj_get data uniqueField]) = Inr q1"
    and ins: "conn_format ev c (''INSERT INTO '' @ table @ '' SET ?'') (JObj data) = Inr q2"
    and resel: "conn_format ev c (select_by table uniqueField)
                  (JArr [obj_get (obj_set data ''id'' newId) uniqueField]) = Inr q3"
    and script: "pending s = Inr raw1 # Inr raw2 # Inr raw3 # rest"
    and none: "unwrap_result raw1 = Inr (JArr [])"
    and inserted: "unwrap_result raw2 = Inr res"
    and ident: "assigned_id res = Inr newId"
    and again: "unwrap_result raw3 = Inr (JArr rows2)"
    and wf: "distinct (map fst data)" "\<forall>row\<in>set rows2. distinct (map fst (own_props row))"
  shows "getOrCreate ev c table data uniqueField s =
           ((Inr (case rows2 of
                    [] \<Rightarrow> JObj (obj_set data ''id'' newId)
                  | row # _ \<Rightarrow> JObj (spread (obj_set data ''id'' newId) (own_props row))),
             obj_set data ''id'' newId),
            s\<lparr>pending := rest,
              sent := sent s @ [(translate ev q1, JUndefined), (translate ev q2, JUndefined),
                                (translate ev q3, JUndefined)]\<rparr>) \<and>
         (\<forall>row others k. rows2 = row # others \<longrightarrow>
            obj_get (spread (obj_set data ''id'' newId) (own_props row)) k =
              (if k \<in> fst ` set (own_props row) then obj_get (own_props row) k
               else if k = ''id'' then newId else obj_get data k) \<and>
            fst ` set (spread (obj_set data ''id'' newId) (own_props row)) =
              insert ''id'' (fst ` set data) \<union> fst ` set (own_props row))"
proof (intro conjI allI impI)
  let ?s1 = "s\<lparr>pending := Inr raw2 # Inr raw3 # rest, sent := sent s @ [(translate ev q1, JUndefined)]\<rparr>"
  let ?s2 = "s\<lparr>pending := Inr raw3 # rest,
                 sent := sent s @ [(translate ev q1, JUndefined), (translate ev q2, JUndefined)]\<rparr>"
  have f: "getOrCreate_find ev c table data uniqueField s = (Inr None, ?s1)"
    by (rule getOrCreate_find_miss [OF sel script none])
  have p1: "pending ?s1 = Inr raw2 # Inr raw3 # rest" by simp
  have i: "getOrCreate_insert ev c table data ?s1 = (Inr (obj_set data ''id'' newId), ?s2)"
    using getOrCreate_insert_ok [OF ins p1 inserted ident] by simp
  have p2: "pending ?s2 = Inr raw3 # rest" by simp
  have r: "getOrCreate_reselect ev c table (obj_set data ''id'' newId) uniqueField ?s2 =
           (Inr (case rows2 of
                   [] \<Rightarrow> JObj (obj_set data ''id'' newId)
                 | row # _ \<Rightarrow> JObj (spread (obj_set data ''id'' newId) (own_props row))),
            s\<lparr>pending := rest,
              sent := sent s @ [(translate ev q1, JUndefined), (translate ev q2, JUndefined),
                                (translate ev q3, JUndefined)]\<rparr>)"
    using getOrCreate_reselect_ok [OF resel p2 again] by simp
  show "getOrCreate ev c table data uniqueField s =
           ((Inr (case rows2 of
                    [] \<Rightarrow> JObj (obj_set data ''id'' newId)
                  | row # _ \<Rightarrow> JObj (spread (obj_set data ''id'' newId) (own_props row))),
             obj_set data ''id'' newId),
            s\<lparr>pending := rest,
              sent := sent s @ [(translate ev q1, JUndefined), (translate ev q2, JUndefined),
                                (translate ev q3, JUndefined)]\<rparr>)"
    by (simp add: getOrCreate_def f i r)
next
  fix row others k
  assume rs: "rows2 = row # others"
  with wf(2) have d: "distinct (map fst (own_props row))" by simp
  show "obj_get (spread (obj_set data ''id'' newId) (own_props row)) k =
        (if k \<in> fst ` set (own_props row) then obj_get (own_props row) k
         else if k = ''id'' then newId else obj_get data k)"
    by (simp add: obj_get_spread [OF distinct_obj_set [OF wf(1)] d] obj_get_obj_set)
  show "fst ` set (spread (obj_set data ''id'' newId) (own_props row)) =
        insert ''id'' (fst ` set data) \<union> fst ` set (own_props row)"
    by (simp add: keys_spread keys_obj_set)
qed


lemma format_insert_programa:
  "conn_format env_mysql MysqlConn (''INSERT INTO '' @ ''p_programa'' @ '' SET ?'')
     (JObj [(''nombre'', JStr ''Sistemas'')]) =
   Inr (''INSERT INTO p_programa SET '' @ [CHR 0x60] @ ''nombre'' @ [CHR 0x60] @ '' = '' @
        [CHR 0x27] @ ''Sistemas'' @ [CHR 0x27])"
  by (simp add: conn_format_def env_mysql_def mysql_format_def nullish_def)

lemma format_reselect_programa:
  "conn_format env_mysql MysqlConn (select_by ''p_programa'' ''nombre'')
     (JArr [obj_get (obj_set [(''nombre'', JStr ''Sistemas'')] ''id'' (JNum 3)) ''nombre'']) =
   Inr (''SELECT * FROM p_programa WHERE nombre = '' @ [CHR 0x27] @ ''Sistemas'' @ [CHR 0x27])"
  by (simp add: conn_format_def env_mysql_def mysql_format_def select_by_def obj_get_def nullish_def)

theorem getOrCreate_insert_path_witness:
  "getOrCreate env_mysql MysqlConn ''p_programa'' [(''nombre'', JStr ''Sistemas'')] ''nombre''
     (start [Inr (mysql_rows []), Inr (mysql_header 1 3), Inr (mysql_rows [programa_row])]) =
   ((Inr (JObj [(''nombre'', JStr ''Sistemas''), (''id'', JNum 3), (''id_programa'', JNum 3)]),
     [(''nombre'', JStr ''Sistemas''), (''id'', JNum 3)]),
    \<lparr>pending = [],
     sent = [(''SELECT * FROM p_programa WHERE nombre = '' @ [CHR 0x27] @ ''Sistemas'' @ [CHR 0x27], JUndefined),
             (''INSERT INTO p_programa SET '' @ [CHR 0x60] @ ''nombre'' @ [CHR 0x60] @ '' = '' @
                [CHR 0x27] @ ''Sistemas'' @ [CHR 0x27], JUndefined),
             (''SELECT * FROM p_programa WHERE nombre = '' @ [CHR 0x27] @ ''Sistemas'' @ [CHR 0x27], JUndefined)],
     acquired = 0, released = 0\<rparr>) \<and>
   obj_get (spread [(''nombre'', JStr ''Sistemas''), (''id'', JNum 3)] (own_props programa_row))
     ''id_programa'' = JNum 3"
proof -
  have p: "pending (start [Inr (mysql_rows []), Inr (mysql_header 1 3), Inr (mysql_rows [programa_row])]) =
           Inr (mysql_rows []) # Inr (mysql_header 1 3) # Inr (mysql_rows [programa_row]) # []"
    by (simp add: start_def)
  have a: "assigned_id (JObj [(''fieldCount'', JNum 0), (''affectedRows'', JNum 1),
              (''insertId'', JNum 3), (''info'', JStr []),
              (''serverStatus'', JNum 2), (''warningStatus'', JNum 0)]) = Inr (JNum 3)"
    by (rule assigned_id_header) simp
  have d1: "distinct (map fst [(''nombre'', JStr ''Sistemas'')])" by simp
  have d2: "\<forall>row\<in>set [programa_row]. distinct (map fst (own_props row))"
    by (simp add: programa_row_def own_props_def)
  from getOrCreate_insert_path [OF format_select_programa format_insert_programa
      format_reselect_programa p unwrap_mysql_rows unwrap_mysql_header a unwrap_mysql_rows d1 d2]
  show ?thesis
    by (simp add: start_def translate_def env_mysql_def programa_row_def own_props_def spread_def
        obj_get_def)
qed

text \<open>
  Claim C9. On the found path the caller's record is the same after the call. On the insert
  path the caller's record ends with \<open>id\<close> set to the identifier taken from the result of
  the insert, whatever the second select does, and the second select is built from the
  record that already has it.
\<close>

theorem getOrCreate_record_effect:
  assumes sel: "conn_format ev c (select_by table uniqueField) (JArr [obj_get data uniqueField]) = Inr q1"
    and script: "pending s = Inr raw1 # rest"
  shows "(\<forall>row others. unwrap_result raw1 = Inr (JArr (row # others)) \<longrightarrow>
            snd (fst (getOrCreate ev c table data uniqueField s)) = data) \<and>
         (\<forall>q2 raw2 rest2 res newId.
            unwrap_result raw1 = Inr (JArr []) \<longrightarrow>
            conn_format ev c (''INSERT INTO '' @ table @ '' SET ?'') (JObj data) = Inr q2 \<longrightarrow>
            rest = Inr raw2 # rest2 \<longrightarrow>
            unwrap_result raw2 = Inr res \<longrightarrow>
            assigned_id res = Inr newId \<longrightarrow>
            snd (fst (getOrCreate ev c table data uniqueField s)) = obj_set data ''id'' newId \<and>
            ''id'' \<in> fst ` set (obj_set data ''id'' newId) \<and>
            obj_get (obj_set data ''id'' newId) ''id'' = newId \<and>
            (\<forall>q3. conn_format ev c (select_by table uniqueField)
                     (JArr [obj_get (obj_set data ''id'' newId) uniqueField]) = Inr q3 \<longrightarrow>
                  sent (snd (getOrCreate ev c table data uniqueField s)) =
                    sent s @ [(translate ev q1, JUndefined), (translate ev q2, JUndefined),
                              (translate ev q3, JUndefined)]))"
proof (intro conjI allI impI)
  fix row others
  assume "unwrap_result raw1 = Inr (JArr (row # others))"
  from getOrCreate_find_hit [OF sel script this]
  show "snd (fst (getOrCreate ev c table data uniqueField s)) = data"
    by (simp add: getOrCreate_def)
next
  fix q2 raw2 rest2 res newId
  assume none: "unwrap_result raw1 = Inr (JArr [])"
    and ins: "conn_format ev c (''INSERT INTO '' @ table @ '' SET ?'') (JObj data) = Inr q2"
    and r: "rest = Inr raw2 # rest2"
    and u: "unwrap_result raw2 = Inr res"
    and a: "assigned_id res = Inr newId"
  let ?s1 = "s\<lparr>pending := rest, sent := sent s @ [(translate ev q1, JUndefined)]\<rparr>"
  let ?s2 = "s\<lparr>pending := rest2,
                 sent := sent s @ [(translate ev q1, JUndefined), (translate ev q2, JUndefined)]\<rparr>"
  have f: "getOrCreate_find ev c table data uniqueField s = (Inr None, ?s1)"
    by (rule getOrCreate_find_miss [OF sel script none])
  have p1: "pending ?s1 = Inr raw2 # rest2" using r by simp
  have i: "getOrCreate_insert ev c table data ?s1 = (Inr (obj_set data ''id'' newId), ?s2)"
    using getOrCreate_insert_ok [OF ins p1 u a] by simp
  show "snd (fst (getOrCreate ev c table data uniqueField s)) = obj_set data ''id'' newId"
    by (simp add: getOrCreate_def f i split: prod.splits)
  show "''id'' \<in> fst ` set (obj_set data ''id'' newId)"
    by (simp add: keys_obj_set)
  show "obj_get (obj_set data ''id'' newId) ''id'' = newId"
    by (simp add: obj_get_obj_set)
  fix q3
  assume resel: "conn_format ev c (select_by table uniqueField)
                   (JArr [obj_get (obj_set data ''id'' newId) uniqueField]) = Inr q3"
  have "sent (snd (getOrCreate_reselect ev c table (obj_set data ''id'' newId) uniqueField ?s2)) =
        sent ?s2 @ [(translate ev q3, JUndefined)]"
    by (simp add: getOrCreate_reselect_def resel andThen_lift_Inr andThen_def conn_query_def
        queryWrapper_def client_query_def lift_def ret_def
        split: list.splits sum.splits prod.splits)
  then show "sent (snd (getOrCreate ev c table data uniqueField s)) =
        sent s @ [(translate ev q1, JUndefined), (translate ev q2, JUndefined),
                  (translate ev q3, JUndefined)]"
    by (auto simp add: getOrCreate_def f i split: prod.splits)
qed


theorem getOrCreate_record_effect_witness:
  "snd (fst (getOrCreate env_mysql MysqlConn ''p_programa'' [(''nombre'', JStr ''Sistemas'')] ''nombre''
               (start [Inr (mysql_rows [programa_row])]))) = [(''nombre'', JStr ''Sistemas'')] \<and>
   snd (fst (getOrCreate env_mysql MysqlConn ''p_programa'' [(''nombre'', JStr ''Sistemas'')] ''nombre''
               (start [Inr (mysql_rows []), Inr (mysql_header 1 3)]))) =
     [(''nombre'', JStr ''Sistemas''), (''id'', JNum 3)] \<and>
   map fst (sent (snd (getOrCreate env_mysql MysqlConn ''p_programa'' [(''nombre'', JStr ''Sistemas'')]
                         ''nombre'' (start [Inr (mysql_rows []), Inr (mysql_header 1 3)])))) =
     [''SELECT * FROM p_programa WHERE nombre = '' @ [CHR 0x27] @ ''Sistemas'' @ [CHR 0x27],
      ''INSERT INTO p_programa SET '' @ [CHR 0x60] @ ''nombre'' @ [CHR 0x60] @ '' = '' @
        [CHR 0x27] @ ''Sistemas'' @ [CHR 0x27],
      ''SELECT * FROM p_programa WHERE nombre = '' @ [CHR 0x27] @ ''Sistemas'' @ [CHR 0x27]]"
proof -
  have p1: "pending (start [Inr (mysql_rows [programa_row])]) = Inr (mysql_rows [programa_row]) # []"
    by (simp add: start_def)
  have p2: "pending (start [Inr (mysql_rows []), Inr (mysql_header 1 3)]) =
            Inr (mysql_rows []) # [Inr (mysql_header 1 3)]"
    by (simp add: start_def)
  have a: "assigned_id (JObj [(''fieldCount'', JNum 0), (''affectedRows'', JNum 1),
              (''insertId'', JNum 3), (''info'', JStr []),
              (''serverStatus'', JNum 2), (''warningStatus'', JNum 0)]) = Inr (JNum 3)"
    by (rule assigned_id_header) simp
  have r: "conn_format env_mysql MysqlConn (select_by ''p_programa'' ''nombre'')
             (JArr [obj_get (obj_set [(''nombre'', JStr ''Sistemas'')] ''id'' (JNum 3)) ''nombre'']) =
           Inr (''SELECT * FROM p_programa WHERE nombre = '' @ [CHR 0x27] @ ''Sistemas'' @ [CHR 0x27])"
    by (rule format_reselect_programa)
  from getOrCreate_record_effect [OF format_select_programa p1]
  have found: "snd (fst (getOrCreate env_mysql MysqlConn ''p_programa''
                 [(''nombre'', JStr ''Sistemas'')] ''nombre''
                 (start [Inr (mysql_rows [programa_row])]))) = [(''nombre'', JStr ''Sistemas'')]"
    using unwrap_mysql_rows [of "[programa_row]"] by blast
  from getOrCreate_record_effect [OF format_select_programa p2]
  have ins: "snd (fst (getOrCreate env_mysql MysqlConn ''p_programa''
                 [(''nombre'', JStr ''Sistemas'')] ''nombre''
                 (start [Inr (mysql_rows []), Inr (mysql_header 1 3)]))) =
               obj_set [(''nombre'', JStr ''Sistemas'')] ''id'' (JNum 3) \<and>
             sent (snd (getOrCreate env_mysql MysqlConn ''p_programa''
                 [(''nombre'', JStr ''Sistemas'')] ''nombre''
                 (start [Inr (mysql_rows []), Inr (mysql_header 1 3)]))) =
               sent (start [Inr (mysql_rows []), Inr (mysql_header 1 3)]) @
               [(translate env_mysql (''SELECT * FROM p_programa WHERE nombre = '' @ [CHR 0x27] @ ''Sistemas'' @ [CHR 0x27]), JUndefined),
                (translate env_mysql (''INSERT INTO p_programa SET '' @ [CHR 0x60] @ ''nombre'' @ [CHR 0x60] @ '' = '' @
                   [CHR 0x27] @ ''Sistemas'' @ [CHR 0x27]), JUndefined),
                (translate env_mysql (''SELECT * FROM p_programa WHERE nombre = '' @ [CHR 0x27] @ ''Sistemas'' @ [CHR 0x27]), JUndefined)]"
    using unwrap_mysql_rows [of "[]"] format_insert_programa unwrap_mysql_header [of 1 3] a r
    by blast
  from found ins show ?thesis
    by (simp add: start_def translate_def env_mysql_def)
qed

section \<open>The resource handlers\<close>

lemma getConnection_ok:
  assumes "dbType ev = Some ''mysql'' \<or> dbType ev = Some ''postgres''" and "pool_error ev = None"
  shows "\<exists>c. getConnection ev s = (Inr c, s\<lparr>acquired := acquired s + 1\<rparr>)"
  using assms by (auto simp: getConnection_def)

lemma get_prop_total: "\<not> nullish v \<Longrightarrow> \<exists>x. get_prop v k = Inr x"
  by (cases v) (simp_all add: get_prop_def nullish_def)

lemma get_fields_total: "\<not> nullish body \<Longrightarrow> \<exists>vals. get_fields body fs = Inr vals"
proof (induction fs)
  case Nil
  then show ?case by simp
next
  case (Cons f fs)
  from Cons obtain vals where v: "get_fields body fs = Inr vals" by blast
  from get_prop_total [OF Cons.prems] obtain x where x: "get_prop body f = Inr x" by blast
  show ?case by (simp add: v x)
qed

text \<open>
  Claim C10. For every resource, once the update or delete statement succeeds the handler
  answers 200 with its success message, whatever the driver reports, so also when no row
  matched the key. The handler for one record, on the same key, answers 404 when the select
  finds no row.
\<close>

theorem put_delete_ignore_missing_key:
  assumes backend: "dbType ev = Some ''mysql'' \<or> dbType ev = Some ''postgres''"
    and pool: "pool_error ev = None"
    and script: "pending s = Inr raw # rest"
    and ok: "unwrap_result raw = Inr v"
    and body: "\<not> nullish body"
  shows "fst (put r ev key body s) = Responded 200 (JObj [(''message'', JStr (msg_put r))]) \<and>
         fst (delete r ev key s) = Responded 200 (JObj [(''message'', JStr (msg_delete r))]) \<and>
         (v = JArr [] \<longrightarrow>
            fst (get_one r ev key s) = Responded 404 (JObj [(''error'', JStr (msg_404 r))]))"
proof -
  from getConnection_ok [OF backend pool]
  obtain c where c: "getConnection ev s = (Inr c, s\<lparr>acquired := acquired s + 1\<rparr>)" by blast
  from get_fields_total [OF body] obtain vals where vals: "get_fields body (put_fields r) = Inr vals"
    by blast
  have 1: "fst (put r ev key body s) = Responded 200 (JObj [(''message'', JStr (msg_put r))])"
    using script ok
    by (simp add: put_def guarded_def c vals andThen_def lift_def ret_def conn_query_def
        queryWrapper_def client_query_def)
  have 2: "fst (delete r ev key s) = Responded 200 (JObj [(''message'', JStr (msg_delete r))])"
    using script ok
    by (simp add: delete_def guarded_def c andThen_def lift_def ret_def conn_query_def
        queryWrapper_def client_query_def)
  have 3: "v = JArr [] \<longrightarrow>
           fst (get_one r ev key s) = Responded 404 (JObj [(''error'', JStr (msg_404 r))])"
  proof
    assume e: "v = JArr []"
    show "fst (get_one r ev key s) = Responded 404 (JObj [(''error'', JStr (msg_404 r))])"
      using script ok unfolding e
      by (simp add: get_one_def guarded_def c andThen_def rows_length lift_def is_zero_def ret_def
          conn_query_def queryWrapper_def client_query_def)
  qed
  from 1 2 3 show ?thesis by simp
qed


theorem put_delete_ignore_missing_key_witness:
  "fst (put practica env_mysql ''999'' (JObj [(''nrc'', JStr ''5021'')]) (start [Inr (mysql_header 0 0)])) =
     Responded 200 (JObj [(''message'', JStr (''Pr'' @ [CHR 0xE1] @ ''ctica actualizada correctamente.''))]) \<and>
   fst (delete practica env_mysql ''999'' (start [Inr (mysql_header 0 0)])) =
     Responded 200 (JObj [(''message'', JStr (''Pr'' @ [CHR 0xE1] @ ''ctica eliminada correctamente.''))]) \<and>
   fst (get_one practica env_mysql ''999'' (start [Inr (mysql_rows [])])) =
     Responded 404 (JObj [(''error'', JStr (''Pr'' @ [CHR 0xE1] @ ''ctica no encontrada.''))])"
proof -
  have b: "dbType env_mysql = Some ''mysql'' \<or> dbType env_mysql = Some ''postgres''"
    by (simp add: env_mysql_def)
  have q: "pool_error env_mysql = None" by (simp add: env_mysql_def)
  have p1: "pending (start [Inr (mysql_header 0 0)]) = Inr (mysql_header 0 0) # []"
    by (simp add: start_def)
  have p2: "pending (start [Inr (mysql_rows [])]) = Inr (mysql_rows []) # []"
    by (simp add: start_def)
  have n: "\<not> nullish (JObj [(''nrc'', JStr ''5021'')])" by (simp add: nullish_def)
  from put_delete_ignore_missing_key [OF b q p1 unwrap_mysql_header n, of practica "''999''"]
       put_delete_ignore_missing_key [OF b q p2 unwrap_mysql_rows n, of practica "''999''"]
  show ?thesis by (simp add: practica_def)
qed

lemma post_mysql_always_500:
  assumes "dbType ev = Some ''mysql''" and "pool_error ev = None"
    and "pending s = Inr (mysql_header affected insertId) # rest"
    and "\<not> nullish body"
  shows "fst (post r ev body s) = Responded 500 (JObj [(''error'', JStr (err_post r))])"
proof -
  from get_fields_total [OF assms(4)] obtain vals where "get_fields body (post_fields r) = Inr vals"
    by blast
  with assms(1-3) show ?thesis
    by (simp add: post_def guarded_def getConnection_def andThen_def lift_def ret_def conn_query_def
        queryWrapper_def client_query_def unwrap_mysql_header destructure_first_def)
qed

text \<open>
  Claim C2. The POST handlers take the result of \<open>connection.query\<close>, which the adapter
  has already unwrapped, and unwrap it again with \<^verbatim>\<open>const [result] = ...\<close>. On MySQL
  the unwrapped result of an insert is the header object, which is not iterable; on
  PostgreSQL it is the empty row list, whose first element is \<open>undefined\<close>. Either way
  the insert has been carried out and the handler answers 500.
\<close>

theorem post_unwraps_twice:
  "post practica env_mysql practica_body (start [Inr (mysql_header 1 7)]) =
     (Responded 500 (JObj [(''error'', JStr (''Error al crear la pr'' @ [CHR 0xE1] @ ''ctica.''))]),
      \<lparr>pending = [],
       sent = [(sql_insert practica,
                JArr [JStr ''A'', JNum 12, JStr ''2024-02-01'', JNum 1, JStr ''2024-01-15'', JStr ''5021'',
                      JStr ''Sistemas'', JStr ''1010'', JNum 2, JNum 3, JNum 4])],
       acquired = 1, released = 1\<rparr>) \<and>
   fst (post practica env_postgres practica_body (start [Inr (pg_result ''INSERT'' [] 1)])) =
     Responded 500 (JObj [(''error'', JStr (''Error al crear la pr'' @ [CHR 0xE1] @ ''ctica.''))])"
  by (simp add: post_def guarded_def getConnection_def env_mysql_def env_postgres_def start_def
      practica_def practica_body_def get_prop_def obj_get_def andThen_def lift_def ret_def
      conn_query_def queryWrapper_def client_query_def translate_def unwrap_mysql_header
      unwrap_pg_result destructure_first_def conn_release_def nullish_def)

section \<open>Connections taken and released\<close>

lemma keeps_ret: "keeps (ret x)"
  by (simp add: keeps_def ret_def)

lemma keeps_lift: "keeps (lift r)"
  by (simp add: keeps_def lift_def)

lemma keeps_andThen:
  assumes "keeps m" and "\<And>x. keeps (f x)"
  shows "keeps (andThen m f)"
proof -
  have "acquired (snd (andThen m f s)) = acquired s \<and> released (snd (andThen m f s)) = released s"
    for s
  proof (cases "m s")
    case (Pair r s')
    from assms(1) have a: "acquired s' = acquired s" "released s' = released s"
      using Pair by (auto simp: keeps_def dest: spec [of _ s])
    show ?thesis
    proof (cases r)
      case (Inl e)
      with Pair a show ?thesis by (simp add: andThen_def)
    next
      case (Inr x)
      from assms(2) [of x] have "acquired (snd (f x s')) = acquired s'"
        "released (snd (f x s')) = released s'" by (simp_all add: keeps_def)
      with Pair Inr a show ?thesis by (simp add: andThen_def)
    qed
  qed
  then show ?thesis by (simp add: keeps_def)
qed

lemma keeps_if: "keeps a \<Longrightarrow> keeps b \<Longrightarrow> keeps (if c then a else b)"
  by simp

lemma keeps_client_query: "keeps (client_query sql ps)"
  by (simp add: keeps_def client_query_def split: list.splits)

lemma keeps_conn_query: "keeps (conn_query ev c sql ps)"
  unfolding conn_query_def queryWrapper_def
  by (intro keeps_andThen keeps_client_query keeps_lift)

lemmas keeps_intros = keeps_andThen keeps_if keeps_ret keeps_lift keeps_conn_query

lemma keeps_getOrCreate_find: "keeps (getOrCreate_find ev c table data uniqueField)"
  unfolding getOrCreate_find_def by (intro keeps_intros)

lemma keeps_getOrCreate_insert: "keeps (getOrCreate_insert ev c table data)"
  unfolding getOrCreate_insert_def by (intro keeps_intros)

lemma keeps_getOrCreate_reselect: "keeps (getOrCreate_reselect ev c table data uniqueField)"
  unfolding getOrCreate_reselect_def by (intro keeps_intros)

lemma keeps_getOrCreate_io: "keeps (getOrCreate_io ev c table data uniqueField)"
proof -
  have "acquired (snd (getOrCreate_io ev c table data uniqueField s)) = acquired s \<and>
        released (snd (getOrCreate_io ev c table data uniqueField s)) = released s" for s
  proof -
    obtain r1 s1 where f: "getOrCreate_find ev c table data uniqueField s = (r1, s1)"
      by (cases "getOrCreate_find ev c table data uniqueField s")
    have k1: "acquired s1 = acquired s \<and> released s1 = released s"
      using keeps_getOrCreate_find [of ev c table data uniqueField] f
      by (auto simp: keeps_def dest: spec [of _ s])
    obtain r2 s2 where i: "getOrCreate_insert ev c table data s1 = (r2, s2)"
      by (cases "getOrCreate_insert ev c table data s1")
    have k2: "acquired s2 = acquired s1 \<and> released s2 = released s1"
      using keeps_getOrCreate_insert [of ev c table data] i
      by (auto simp: keeps_def dest: spec [of _ s1])
    have k3: "acquired s3 = acquired s2 \<and> released s3 = released s2"
      if "getOrCreate_reselect ev c table d uniqueField s2 = (r3, s3)" for d r3 s3
      using keeps_getOrCreate_reselect [of ev c table d uniqueField] that
      by (auto simp: keeps_def dest: spec [of _ s2])
    show ?thesis
      using f i k1 k2 k3
      by (auto simp: getOrCreate_io_def getOrCreate_def split: sum.splits option.splits prod.splits
          dest: k3)
  qed
  then show ?thesis by (simp add: keeps_def)
qed

lemma keeps_upsert_practica: "keeps (upsert_practica ev c d a b e)"
  unfolding upsert_practica_def by (intro keeps_intros)

lemma keeps_process_row: "keeps (process_row ev c row)"
  unfolding process_row_def by (intro keeps_intros keeps_getOrCreate_io keeps_upsert_practica)

lemma keeps_process_rows: "keeps (process_rows ev c rows)"
  by (induction rows) (auto intro: keeps_intros keeps_process_row)

lemma keeps_import_rows: "keeps (import_rows ev c rows)"
  unfolding import_rows_def by (intro keeps_intros keeps_process_rows)

lemma getConnection_counts:
  "getConnection ev s = (r, s0) \<Longrightarrow>
   released s0 = released s \<and>
   (case r of Inl e \<Rightarrow> acquired s0 = acquired s | Inr c \<Rightarrow> acquired s0 = acquired s + 1)"
  by (auto simp: getConnection_def split: if_splits option.splits)

lemma guarded_counts:
  assumes "\<And>c. keeps (body c)"
  shows "acquired (snd (guarded ev msg body s)) - acquired s \<le> 1 \<and>
         acquired s \<le> acquired (snd (guarded ev msg body s)) \<and>
         released (snd (guarded ev msg body s)) =
           released s + (acquired (snd (guarded ev msg body s)) - acquired s)"
proof (cases "getConnection ev s")
  case (Pair r s0)
  note g = getConnection_counts [OF Pair]
  show ?thesis
  proof (cases r)
    case (Inl e)
    with Pair g show ?thesis by (simp add: guarded_def)
  next
    case (Inr c)
    obtain r1 s1 where b: "body c s0 = (r1, s1)" by (cases "body c s0")
    from assms [of c] b have "acquired s1 = acquired s0 \<and> released s1 = released s0"
      by (auto simp: keeps_def dest: spec [of _ s0])
    with Pair Inr g b show ?thesis
      by (auto simp: guarded_def conn_release_def split: sum.splits prod.splits)
  qed
qed

lemma upload_counts:
  "acquired (snd (upload_handler ev upl s)) - acquired s \<le> 1 \<and>
   acquired s \<le> acquired (snd (upload_handler ev upl s)) \<and>
   released (snd (upload_handler ev upl s)) =
     released s + (acquired (snd (upload_handler ev upl s)) - acquired s)"
proof (cases upl)
  case NoFile
  then show ?thesis by (simp add: upload_handler_def)
next
  case (Workbook sheets)
  show ?thesis
  proof (cases "map_of sheets ''Datos''")
    case None
    with Workbook show ?thesis by (simp add: upload_handler_def)
  next
    case (Some jsonData)
    obtain r s0 where gc: "getConnection ev s = (r, s0)" by (cases "getConnection ev s")
    note g = getConnection_counts [OF gc]
    show ?thesis
    proof (cases r)
      case (Inl e)
      with Workbook Some gc g show ?thesis by (simp add: upload_handler_def)
    next
      case (Inr c)
      obtain r1 s1 where b: "import_rows ev c jsonData s0 = (r1, s1)"
        by (cases "import_rows ev c jsonData s0")
      from keeps_import_rows [of ev c jsonData] b
      have k1: "acquired s1 = acquired s0 \<and> released s1 = released s0"
        by (auto simp: keeps_def dest: spec [of _ s0])
      obtain r2 s2 where rb: "conn_query ev c ''ROLLBACK'' JUndefined s1 = (r2, s2)"
        by (cases "conn_query ev c ''ROLLBACK'' JUndefined s1")
      from keeps_conn_query [of ev c "''ROLLBACK''" JUndefined] rb
      have k2: "acquired s2 = acquired s1 \<and> released s2 = released s1"
        by (auto simp: keeps_def dest: spec [of _ s1])
      from Workbook Some gc Inr g b k1 rb k2 show ?thesis
        by (auto simp: upload_handler_def conn_release_def split: sum.splits prod.splits)
    qed
  qed
qed

text \<open>
  Claim C8. Whatever the request, the environment and the replies of the driver, a handler
  takes at most one connection and releases exactly as many as it takes: one release when
  it took a connection, on the success path, on a 404, on a statement that throws and on a
  rollback that throws; none when it took none.
\<close>

theorem connection_released_once:
  "acquired (snd (serve ev rq s)) - acquired s \<le> 1 \<and>
   acquired s \<le> acquired (snd (serve ev rq s)) \<and>
   released (snd (serve ev rq s)) = released s + (acquired (snd (serve ev rq s)) - acquired s)"
proof (cases rq)
  case (GetAll r)
  have "\<And>c. keeps (andThen (conn_query ev c (sql_all r) JUndefined) (\<lambda>rows. ret (200::nat, rows)))"
    by (intro keeps_intros)
  from guarded_counts [of _ ev "err_all r" s, OF this] GetAll show ?thesis
    by (simp add: serve_def get_all_def)
next
  case (GetOne r key)
  have "\<And>c. keeps (andThen (conn_query ev c (sql_one r) (JArr [JStr key])) (\<lambda>rows.
       andThen (lift (get_prop rows ''length'')) (\<lambda>len.
         if is_zero len then ret (404::nat, JObj [(''error'', JStr (msg_404 r))])
         else andThen (lift (get_prop rows ''0'')) (\<lambda>row. ret (200::nat, row)))))"
    by (intro keeps_intros)
  from guarded_counts [of _ ev "err_one r" s, OF this] GetOne show ?thesis
    by (simp add: serve_def get_one_def)
next
  case (Post r body)
  have "\<And>c. keeps (andThen (lift (get_fields body (post_fields r))) (\<lambda>vals.
       andThen (conn_query ev c (sql_insert r) (JArr vals)) (\<lambda>res.
       andThen (lift (destructure_first res)) (\<lambda>result.
         case post_echo r of
           EchoId k \<Rightarrow>
             andThen (lift (get_prop result ''insertId'')) (\<lambda>i.
               ret (201::nat, JObj ((k, i) # zip (post_fields r) vals)))
         | EchoIdBody \<Rightarrow>
             andThen (lift (get_prop result ''insertId'')) (\<lambda>i.
               ret (201::nat, JObj (spread [(''id'', i)] (own_props body))))
         | EchoPlain \<Rightarrow> ret (201::nat, JObj (zip (post_fields r) vals))))))"
    by (cases "post_echo r") (simp_all, (intro keeps_intros)+)
  from guarded_counts [of _ ev "err_post r" s, OF this] Post show ?thesis
    by (simp add: serve_def post_def)
next
  case (Put r key body)
  have "\<And>c. keeps (andThen (lift (get_fields body (put_fields r))) (\<lambda>vals.
       andThen (conn_query ev c (sql_update r) (JArr (vals @ [JStr key]))) (\<lambda>_.
         ret (200::nat, JObj [(''message'', JStr (msg_put r))]))))"
    by (intro keeps_intros)
  from guarded_counts [of _ ev "err_put r" s, OF this] Put show ?thesis
    by (simp add: serve_def put_def)
next
  case (Delete r key)
  have "\<And>c. keeps (andThen (conn_query ev c (sql_delete r) (JArr [JStr key])) (\<lambda>_.
         ret (200::nat, JObj [(''message'', JStr (msg_delete r))])))"
    by (intro keeps_intros)
  from guarded_counts [of _ ev "err_delete r" s, OF this] Delete show ?thesis
    by (simp add: serve_def delete_def)
next
  case (Upload upl)
  with upload_counts [of ev upl s] show ?thesis by (simp add: serve_def)
qed


theorem connection_released_once_witness:
  "acquired (snd (serve env_mysql (GetOne practica ''1'') (start [Inl (Error ''ER_LOCK_DEADLOCK'')]))) = 1 \<and>
   released (snd (serve env_mysql (GetOne practica ''1'') (start [Inl (Error ''ER_LOCK_DEADLOCK'')]))) = 1"
proof -
  have a: "acquired (snd (serve env_mysql (GetOne practica ''1'')
             (start [Inl (Error ''ER_LOCK_DEADLOCK'')]))) = 1"
    by (simp add: serve_def get_one_def guarded_def getConnection_def env_mysql_def start_def
        andThen_def conn_query_def queryWrapper_def client_query_def conn_release_def)
  from connection_released_once [of env_mysql "GetOne practica ''1''"
      "start [Inl (Error ''ER_LOCK_DEADLOCK'')]"] a
  show ?thesis by (simp add: start_def)
qed

section \<open>The import as one transaction\<close>

text \<open>
  What the import sends, for every sheet and every script: BEGIN comes first; COMMIT is sent
  only after every row went through, and is then the last statement; a row that fails ends
  the loop; after a failure the next statement is ROLLBACK, sent before the one release, and
  the answer is 500 with the generic body when the ROLLBACK itself succeeds.
\<close>

lemma grows_ret: "grows (ret x)"
  by (simp add: grows_def ret_def)

lemma grows_lift: "grows (lift r)"
  by (simp add: grows_def lift_def)

lemma grows_andThen:
  assumes "grows m" and "\<And>x. grows (f x)"
  shows "grows (andThen m f)"
proof -
  have "\<exists>xs. sent (snd (andThen m f s)) = sent s @ xs" for s
  proof (cases "m s")
    case (Pair r s')
    from assms(1) obtain xs where a: "sent s' = sent s @ xs"
      using Pair by (auto simp: grows_def dest: spec [of _ s])
    show ?thesis
    proof (cases r)
      case (Inl e)
      with Pair a show ?thesis by (simp add: andThen_def)
    next
      case (Inr x)
      from assms(2) [of x] obtain ys where "sent (snd (f x s')) = sent s' @ ys"
        by (auto simp: grows_def)
      with Pair Inr a show ?thesis by (simp add: andThen_def)
    qed
  qed
  then show ?thesis by (simp add: grows_def)
qed

lemma grows_if: "grows a \<Longrightarrow> grows b \<Longrightarrow> grows (if c then a else b)"
  by simp

lemma grows_conn_query: "grows (conn_query ev c sql ps)"
  by (simp add: grows_def conn_query_def queryWrapper_def client_query_def andThen_def lift_def
      split: list.splits sum.splits)

lemmas grows_intros = grows_andThen grows_if grows_ret grows_lift grows_conn_query

lemma grows_getOrCreate_io: "grows (getOrCreate_io ev c table data uniqueField)"
proof -
  have "\<exists>xs. sent (snd (getOrCreate_io ev c table data uniqueField s)) = sent s @ xs" for s
  proof -
    obtain r1 s1 where f: "getOrCreate_find ev c table data uniqueField s = (r1, s1)"
      by (cases "getOrCreate_find ev c table data uniqueField s")
    have "grows (getOrCreate_find ev c table data uniqueField)"
      unfolding getOrCreate_find_def by (intro grows_intros)
    with f obtain xs where k1: "sent s1 = sent s @ xs"
      by (auto simp: grows_def dest: spec [of _ s])
    obtain r2 s2 where i: "getOrCreate_insert ev c table data s1 = (r2, s2)"
      by (cases "getOrCreate_insert ev c table data s1")
    have "grows (getOrCreate_insert ev c table data)"
      unfolding getOrCreate_insert_def by (intro grows_intros)
    with i obtain ys where k2: "sent s2 = sent s1 @ ys"
      by (auto simp: grows_def dest: spec [of _ s1])
    have k3: "\<exists>zs. sent s3 = sent s2 @ zs"
      if "getOrCreate_reselect ev c table d uniqueField s2 = (r3, s3)" for d r3 s3
    proof -
      have "grows (getOrCreate_reselect ev c table d uniqueField)"
        unfolding getOrCreate_reselect_def by (intro grows_intros)
      with that show ?thesis by (auto simp: grows_def dest: spec [of _ s2])
    qed
    show ?thesis
      using f i k1 k2
      by (auto simp: getOrCreate_io_def getOrCreate_def split: sum.splits option.splits prod.splits
          dest!: k3)
  qed
  then show ?thesis by (simp add: grows_def)
qed

lemma grows_process_row: "grows (process_row ev c row)"
  unfolding process_row_def upsert_practica_def by (intro grows_intros grows_getOrCreate_io)

lemma grows_process_rows: "grows (process_rows ev c rows)"
  by (induction rows) (auto intro: grows_intros grows_process_row)


lemma conn_query_sent:
  "sent (snd (conn_query ev c sql ps s)) = sent s @ [(translate ev sql, ps)]"
  by (simp add: conn_query_def queryWrapper_def client_query_def andThen_def lift_def
      split: list.splits sum.splits)

lemma import_rows_begins:
  "\<exists>mid. sent (snd (import_rows ev c rows s)) = sent s @ (translate ev ''BEGIN'', JUndefined) # mid"
proof -
  obtain r0 s0 where b: "conn_query ev c ''BEGIN'' JUndefined s = (r0, s0)"
    by (cases "conn_query ev c ''BEGIN'' JUndefined s")
  from conn_query_sent [of ev c "''BEGIN''" JUndefined s] b
  have s0: "sent s0 = sent s @ [(translate ev ''BEGIN'', JUndefined)]" by simp
  have g: "grows (andThen (process_rows ev c rows) (\<lambda>_.
             andThen (conn_query ev c ''COMMIT'' JUndefined) (\<lambda>_. ret ())))"
    by (intro grows_intros grows_process_rows)
  show ?thesis
  proof (cases r0)
    case (Inl e)
    with b s0 show ?thesis by (simp add: import_rows_def andThen_def)
  next
    case (Inr x)
    from g obtain xs where
      "sent (snd (andThen (process_rows ev c rows) (\<lambda>_.
             andThen (conn_query ev c ''COMMIT'' JUndefined) (\<lambda>_. ret ())) s0)) = sent s0 @ xs"
      by (auto simp: grows_def)
    with b Inr s0 show ?thesis by (simp add: import_rows_def andThen_def)
  qed
qed

lemma import_rows_commit_last:
  assumes "import_rows ev c rows s = (Inr u, s1)"
  shows "\<exists>x s0 s'. conn_query ev c ''BEGIN'' JUndefined s = (Inr x, s0) \<and>
           process_rows ev c rows s0 = (Inr (), s') \<and>
           sent s1 = sent s' @ [(translate ev ''COMMIT'', JUndefined)]"
proof -
  obtain r0 s0 where b: "conn_query ev c ''BEGIN'' JUndefined s = (r0, s0)"
    by (cases "conn_query ev c ''BEGIN'' JUndefined s")
  obtain r' s' where p: "process_rows ev c rows s0 = (r', s')"
    by (cases "process_rows ev c rows s0")
  obtain r2 s2 where cm: "conn_query ev c ''COMMIT'' JUndefined s' = (r2, s2)"
    by (cases "conn_query ev c ''COMMIT'' JUndefined s'")
  from conn_query_sent [of ev c "''COMMIT''" JUndefined s'] cm
  have "sent s2 = sent s' @ [(translate ev ''COMMIT'', JUndefined)]" by simp
  with assms b p cm show ?thesis
    by (auto simp: import_rows_def andThen_def ret_def split: sum.splits)
qed

lemma import_rows_abort:
  assumes "conn_query ev c ''BEGIN'' JUndefined s = (Inr x, s0)"
    and "process_rows ev c rows s0 = (Inl e, s')"
  shows "import_rows ev c rows s = (Inl e, s')"
  using assms by (simp add: import_rows_def andThen_def)

lemma process_rows_stops:
  assumes "process_rows ev c rows1 s = (Inl e, s')"
  shows "process_rows ev c (rows1 @ rows2) s = (Inl e, s')"
  using assms
proof (induction rows1 arbitrary: s)
  case Nil
  then show ?case by (simp add: ret_def)
next
  case (Cons row rows1)
  obtain r1 s1 where p: "process_row ev c row s = (r1, s1)" by (cases "process_row ev c row s")
  show ?case
  proof (cases r1)
    case (Inl e1)
    with Cons.prems p show ?thesis by (simp add: andThen_def)
  next
    case (Inr u)
    with Cons.prems p have "process_rows ev c rows1 s1 = (Inl e, s')" by (simp add: andThen_def)
    from Cons.IH [OF this] p Inr show ?thesis by (simp add: andThen_def)
  qed
qed

lemma upload_failure_rolls_back:
  assumes "getConnection ev s = (Inr c, s0)"
    and "map_of sheets ''Datos'' = Some rows"
    and "import_rows ev c rows s0 = (Inl e, s1)"
  shows "sent (snd (upload_handler ev (Workbook sheets) s)) =
           sent s1 @ [(translate ev ''ROLLBACK'', JUndefined)] \<and>
         released (snd (upload_handler ev (Workbook sheets) s)) = released s1 + 1 \<and>
         (\<forall>raw rest v. pending s1 = Inr raw # rest \<longrightarrow> unwrap_result raw = Inr v \<longrightarrow>
            fst (upload_handler ev (Workbook sheets) s) =
              Responded 500 (JObj [(''error'', JStr ''Error al insertar en la base de datos.'')]))"
proof -
  obtain r2 s2 where rb: "conn_query ev c ''ROLLBACK'' JUndefined s1 = (r2, s2)"
    by (cases "conn_query ev c ''ROLLBACK'' JUndefined s1")
  from conn_query_sent [of ev c "''ROLLBACK''" JUndefined s1] rb
  have 1: "sent s2 = sent s1 @ [(translate ev ''ROLLBACK'', JUndefined)]" by simp
  from keeps_conn_query [of ev c "''ROLLBACK''" JUndefined] rb
  have 2: "released s2 = released s1" by (auto simp: keeps_def dest: spec [of _ s1])
  have 3: "r2 = Inr v" if "pending s1 = Inr raw # rest" "unwrap_result raw = Inr v" for raw rest v
    using conn_query_ok [OF that, of ev c "''ROLLBACK''" JUndefined] rb by simp
  from assms rb 1 2 show ?thesis
    by (auto simp: upload_handler_def conn_release_def split: sum.splits dest: 3)
qed

section \<open>The bulk import on concrete sheets\<close>

lemmas run_defs =
  upload_handler_def import_rows_def process_row_def upsert_practica_def getOrCreate_io_def
  getOrCreate_def getOrCreate_find_def getOrCreate_insert_def getOrCreate_reselect_def
  getConnection_def conn_query_def conn_format_def conn_release_def queryWrapper_def
  client_query_def translate_def andThen_def lift_def ret_def select_by_def assigned_id_def
  mysql_format_def env_mysql_def start_def unwrap_mysql_rows unwrap_mysql_header
  get_prop_def obj_get_def array_index_def destructure_first_def gt_zero_def to_number_def
  truthy_def nullish_def own_props_def spread_def serial_date_def
  practica_select_def practica_insert_def practica_update_def


lemma upsert_existing_row_inserts:
  assumes "pending s = Inr raw # Inr raw' # rest"
    and "unwrap_result raw = Inr (JArr (JObj r # others))"
    and "map_of r ''length'' = None"
    and "unwrap_result raw' = Inr v"
  shows "upsert_practica ev c practicaData id_estudiante id_empresa id_programa s =
         (Inr (), s\<lparr>pending := rest,
                   sent := sent s @
                     [(translate ev practica_select, JArr [id_estudiante, id_empresa, id_programa]),
                      (translate ev practica_insert, practicaData)]\<rparr>)"
  using assms
  by (simp add: upsert_practica_def andThen_def lift_def ret_def conn_query_def queryWrapper_def
      client_query_def destructure_first_def get_prop_def obj_get_def gt_zero_def to_number_def)

lemma upsert_no_row_throws:
  assumes "pending s = Inr raw # rest"
    and "unwrap_result raw = Inr (JArr [])"
  shows "upsert_practica ev c practicaData id_estudiante id_empresa id_programa s =
         (Inl TypeError, s\<lparr>pending := rest,
                   sent := sent s @
                     [(translate ev practica_select, JArr [id_estudiante, id_empresa, id_programa])]\<rparr>)"
  using assms
  by (simp add: upsert_practica_def andThen_def lift_def ret_def conn_query_def queryWrapper_def
      client_query_def destructure_first_def get_prop_def)

text \<open>
  Claim C1. The import takes the adapter's unwrapped row list and unwraps it again with
  \<^verbatim>\<open>const [practicaRows] = ...\<close>, so \<open>practicaRows\<close> is the first row, or
  \<open>undefined\<close>. When the internship row of the triple exists, its \<open>length\<close> is
  \<open>undefined\<close> and the import sends the INSERT, a second row for the triple, never the
  UPDATE. When no row exists, reading \<open>length\<close> throws, and the import rolls back and
  answers 500 without inserting.
\<close>

theorem import_never_updates:
  "upload_handler env_mysql (Workbook [(''Datos'', [sample_row])]) (start rerun_replies) =
     (Responded 200 (JObj [(''message'',
        JStr ''Archivo procesado e insertado en la base de datos correctamente.'')]),
      \<lparr>pending = [],
       sent =
         [(''BEGIN'', JUndefined),
          (''SELECT * FROM p_cargo_contacto WHERE nombre = '' @ [CHR 0x27] @ ''Gerente'' @ [CHR 0x27],
           JUndefined),
          (''SELECT * FROM p_contacto WHERE email = '' @ [CHR 0x27] @ ''luis@acme.co'' @ [CHR 0x27],
           JUndefined),
          (''SELECT * FROM p_empresa WHERE nit = '' @ [CHR 0x27] @ ''900123'' @ [CHR 0x27],
           JUndefined),
          (''SELECT * FROM p_programa WHERE nombre = '' @ [CHR 0x27] @ ''Sistemas'' @ [CHR 0x27],
           JUndefined),
          (''SELECT * FROM p_estudiante WHERE email = '' @ [CHR 0x27] @ ''jefe@acme.co'' @ [CHR 0x27],
           JUndefined),
          (''SELECT * FROM p_practica WHERE id_estudiante = ? AND id_empresa = ? AND id_programa = ?'',
           JArr [JNum 4, JNum 5, JNum 3]),
          (''INSERT INTO p_practica SET ?'',
           JObj [(''id_programa'', JNum 3), (''id_estudiante'', JNum 4), (''id_empresa'', JNum 5),
                 (''fec_inicio'', JNum 1704153600000), (''fec_termina'', JNum 1719705600000),
                 (''dias_pract'', JNum 180)]),
          (''COMMIT'', JUndefined)],
       acquired = 1, released = 1\<rparr>) \<and>
   fst (upload_handler env_mysql (Workbook [(''Datos'', [sample_row])]) (start fresh_replies)) =
     Responded 500 (JObj [(''error'', JStr ''Error al insertar en la base de datos.'')]) \<and>
   drop 16 (map fst (sent (snd (upload_handler env_mysql (Workbook [(''Datos'', [sample_row])])
                                   (start fresh_replies))))) =
     [''SELECT * FROM p_practica WHERE id_estudiante = ? AND id_empresa = ? AND id_programa = ?'',
      ''ROLLBACK'']"
  by (simp add: run_defs sample_row_def rerun_replies_def fresh_replies_def cargo_row_def
      contacto_row_def empresa_row_def programa_row_def estudiante_row_def practica_row_def)

text \<open>
  Claim C7. A statement of a row fails and the ROLLBACK sent from the \<open>catch\<close> block fails
  too, as on a lost connection: the error leaves the \<open>catch\<close> block, the connection is
  released, and the handler ends without the 500 response.
\<close>

theorem rollback_failure_leaves_no_response:
  "upload_handler env_mysql (Workbook [(''Datos'', [sample_row])])
     (start [Inr (mysql_header 0 0),
             Inl (Error ''Connection lost: The server closed the connection.''),
             Inl (Error ''Cannot enqueue Query after fatal error.'')]) =
     (Rejected (Error ''Cannot enqueue Query after fatal error.''),
      \<lparr>pending = [],
       sent =
         [(''BEGIN'', JUndefined),
          (''SELECT * FROM p_cargo_contacto WHERE nombre = '' @ [CHR 0x27] @ ''Gerente'' @ [CHR 0x27],
           JUndefined),
          (''ROLLBACK'', JUndefined)],
       acquired = 1, released = 1\<rparr>)"
  by (simp add: run_defs sample_row_def)

end
